theory Spec2Isabelle
  imports Complex_Main
begin

section \<open>Policy enumerations\<close>

text \<open>
  \<^verbatim>\<open>gen_ai/constants/inpainting_configuration_types.py\<close> declares three \<^verbatim>\<open>IntEnum\<close>
  classes. Each class is a datatype with one constructor per member, in the order of
  the class body; the three members called \<^verbatim>\<open>NONE\<close> live in different classes, so a
  constructor carries the class as a prefix. The integer of a member is given by a
  function, and the lookup \<^verbatim>\<open>Cls(n)\<close> by an option-valued one (Python raises
  \<^verbatim>\<open>ValueError\<close> where it is \<open>None\<close>).
\<close>

datatype InpaintingPreProcessTypes =
  PreProcess_NONE | PreProcess_RESIZE | PreProcess_CROP_AND_RESIZE

datatype InpaintingPostProcessTypes =
  PostProcess_NONE | PostProcess_DIRECT_REPLACE | PostProcess_BLEND

datatype InpaintingBlendingTypes =
  Blending_NONE | POISSON_BLENDING | GAUSSIAN_BLENDING | LINEAR_BLENDING
  | SMOOTH_BLENDING | SMOOTHER_BLENDING

fun pre_process_value :: "InpaintingPreProcessTypes \<Rightarrow> int" where
  "pre_process_value PreProcess_NONE = 1"
| "pre_process_value PreProcess_RESIZE = 2"
| "pre_process_value PreProcess_CROP_AND_RESIZE = 3"

fun post_process_value :: "InpaintingPostProcessTypes \<Rightarrow> int" where
  "post_process_value PostProcess_NONE = 1"
| "post_process_value PostProcess_DIRECT_REPLACE = 2"
| "post_process_value PostProcess_BLEND = 3"

fun blending_value :: "InpaintingBlendingTypes \<Rightarrow> int" where
  "blending_value Blending_NONE = 1"
| "blending_value POISSON_BLENDING = 2"
| "blending_value GAUSSIAN_BLENDING = 3"
| "blending_value LINEAR_BLENDING = 4"
| "blending_value SMOOTH_BLENDING = 5"
| "blending_value SMOOTHER_BLENDING = 6"

text \<open>The members of each class, as iterating over the class lists them.\<close>

definition pre_process_members :: "InpaintingPreProcessTypes list" where
  "pre_process_members = [PreProcess_NONE, PreProcess_RESIZE, PreProcess_CROP_AND_RESIZE]"

definition post_process_members :: "InpaintingPostProcessTypes list" where
  "post_process_members = [PostProcess_NONE, PostProcess_DIRECT_REPLACE, PostProcess_BLEND]"

definition blending_members :: "InpaintingBlendingTypes list" where
  "blending_members =
     [Blending_NONE, POISSON_BLENDING, GAUSSIAN_BLENDING, LINEAR_BLENDING,
      SMOOTH_BLENDING, SMOOTHER_BLENDING]"

text \<open>The lookup by value: the first member whose integer is \<open>n\<close>.\<close>

definition pre_process_of_int :: "int \<Rightarrow> InpaintingPreProcessTypes option" where
  "pre_process_of_int n = find (\<lambda>m. pre_process_value m = n) pre_process_members"

definition post_process_of_int :: "int \<Rightarrow> InpaintingPostProcessTypes option" where
  "post_process_of_int n = find (\<lambda>m. post_process_value m = n) post_process_members"

definition blending_of_int :: "int \<Rightarrow> InpaintingBlendingTypes option" where
  "blending_of_int n = find (\<lambda>m. blending_value m = n) blending_members"

section \<open>The Stable Diffusion wrapper\<close>

subsection \<open>Values, errors and configuration\<close>

text \<open>
  A raised exception is a value: its class and, where the source writes one, its
  message. \<open>CollaboratorError\<close> is an exception that comes out of a call into
  code outside this class (the diffusers pipeline, the inpainting utilities, the file
  system).
\<close>

datatype error =
  ValueError string
  | AttributeError string
  | KeyError string
  | TypeError string
  | CollaboratorError string

text \<open>
  A \<^verbatim>\<open>pathlib.Path\<close> is the list of its parts; \<^verbatim>\<open>str(path)\<close> joins them. The
  decorator \<^verbatim>\<open>pathify_strings\<close> turns string arguments into paths before a method
  body runs, so the methods below take paths.
\<close>

type_synonym path = "string list"

fun path_str :: "path \<Rightarrow> string" where
  "path_str [] = ''.''"
| "path_str [p] = p"
| "path_str (p # q # ps) = p @ ''/'' @ path_str (q # ps)"

text \<open>
  The task types the two module-level tables list. \<open>OTHER_TASK\<close> stands for any
  member of \<^verbatim>\<open>ImageGenTaskTypes\<close> that the tables do not list: looking it up raises
  \<^verbatim>\<open>KeyError\<close>, and \<^verbatim>\<open>generate_images\<close> rejects it.
\<close>

datatype ImageGenTaskTypes = TEXT2IMG | IMG2IMG | INPAINTING | OTHER_TASK

datatype pipeline_cls =
  StableDiffusionPipeline | StableDiffusionImg2ImgPipeline | StableDiffusionInpaintPipeline

fun PIPELINE_CLS_MAP :: "ImageGenTaskTypes \<Rightarrow> pipeline_cls option" where
  "PIPELINE_CLS_MAP TEXT2IMG = Some StableDiffusionPipeline"
| "PIPELINE_CLS_MAP IMG2IMG = Some StableDiffusionImg2ImgPipeline"
| "PIPELINE_CLS_MAP INPAINTING = Some StableDiffusionInpaintPipeline"
| "PIPELINE_CLS_MAP OTHER_TASK = None"

text \<open>
  \<^verbatim>\<open>StableDiffusionModelConfig\<close>, after its \<^verbatim>\<open>model_post_init\<close> has filled the
  generator in. \<open>'g\<close> is the type of the random generator object.
\<close>

record 'g StableDiffusionModelConfig =
  hf_model_id :: "string option"
  model_path :: "path option"
  device :: string
  task_type :: ImageGenTaskTypes
  check_nsfw :: bool
  seed :: "int option"
  generator :: 'g

text \<open>
  The fields of \<^verbatim>\<open>StableDiffusionInputConfig\<close> that the methods read by name.
  \<open>'img\<close> is the type of an image object. \<open>sampling\<close> bundles every other
  option (prompt, negative prompt, number of steps, guidance scale, latents, denoising
  strength, callbacks, ...): the methods forward them to the pipeline unchanged and never
  look at them.
\<close>

record ('img, 'k) StableDiffusionInputConfig =
  input_image :: 'img
  mask_image :: 'img
  width :: int
  height :: int
  num_batches :: int
  preprocess_type :: InpaintingPreProcessTypes
  postprocess_type :: InpaintingPostProcessTypes
  blending_type :: InpaintingBlendingTypes
  scheduler_type :: "string option"
  sampling :: 'k

text \<open>An argument that is one value or a list of values (\<^verbatim>\<open>Union[str, List[str]]\<close>).\<close>

datatype 'a one_or_list = Single 'a | Listed "'a list"

text \<open>The keyword arguments of the three ways the pipeline object is called.\<close>

datatype ('img, 'k, 'g) pipe_args =
  Text2ImgArgs (pa_sampling: 'k) (pa_height: int) (pa_width: int) (pa_generator: 'g)
  | Img2ImgArgs (pa_sampling: 'k) (pa_image: 'img) (pa_generator: 'g)
  | InpaintArgs (pa_sampling: 'k) (pa_image: 'img) (pa_mask_image: 'img)
      (pa_height: int) (pa_width: int) (pa_generator: 'g)

datatype textual_inversion_source =
  FromFiles "path one_or_list" "string one_or_list"
  | FromHub "string one_or_list" bool

subsection \<open>Calls that leave the class\<close>

text \<open>
  Every call into code outside the class is written to a log, in the order the calls
  are made, with the arguments the source passes; the call of the pipeline object also
  records what came back, since the pipeline carries state of its own (its random
  generator) and two calls with the same arguments need not agree.
\<close>

datatype ('img, 'k, 'g) call =
  CheckHfCache "string one_or_list"
  | FromSingleFile pipeline_cls string string
  | FromPretrained pipeline_cls string bool string
  | Mkdir path
  | GetScheduler string
  | PreprocessInputs 'img 'img InpaintingPreProcessTypes int int
  | PipeCall "('img, 'k, 'g) pipe_args" "error + 'img list"
  | PostprocessOutputs 'img 'img 'img InpaintingPreProcessTypes
      InpaintingPostProcessTypes InpaintingBlendingTypes
  | SaveImages "'img list" path
  | LoadTextualInversion textual_inversion_source
  | UnloadTextualInversion "string one_or_list option"

text \<open>
  The code outside the class, as parameters. \<open>'p\<close> is the type of a pipeline
  object.
  \<^item> \<open>from_single_file cls descriptor device\<close> and
    \<open>from_pretrained cls descriptor local_files_only device\<close> build a pipeline and
    move it to the device;
  \<^item> \<open>call_pipe p args\<close> runs the pipeline and returns its \<^verbatim>\<open>.images\<close> (or the
    exception it raised) and the pipeline object afterwards;
  \<^item> \<open>preprocess_inputs image mask pre_process_type output_width output_height\<close>
    returns the tuple of values the source then unpacks;
  \<^item> \<open>postprocess_outputs image mask inpainted_image pre_process_type
    post_process_type blending_type\<close> returns the final image;
  \<^item> the three model identifiers are the constants of \<^verbatim>\<open>gen_ai.configs\<close> behind
    \<^verbatim>\<open>PIPELINE_MODEL_MAP\<close>.
\<close>

record ('img, 'k, 'g, 'p) collaborators =
  TEXT2IMG_MODEL_ID :: string
  IMG2IMG_MODEL_ID :: string
  INPAINTING_MODEL_ID :: string
  check_if_hf_cache_exists :: "string one_or_list \<Rightarrow> bool"
  from_single_file :: "pipeline_cls \<Rightarrow> string \<Rightarrow> string \<Rightarrow> error + 'p"
  from_pretrained :: "pipeline_cls \<Rightarrow> string \<Rightarrow> bool \<Rightarrow> string \<Rightarrow> error + 'p"
  clear_safety_checker :: "'p \<Rightarrow> 'p"
  get_scheduler :: "string \<Rightarrow> 'p \<Rightarrow> error + 'p"
  call_pipe :: "'p \<Rightarrow> ('img, 'k, 'g) pipe_args \<Rightarrow> (error + 'img list) \<times> 'p"
  preprocess_inputs ::
    "'img \<Rightarrow> 'img \<Rightarrow> InpaintingPreProcessTypes \<Rightarrow> int \<Rightarrow> int \<Rightarrow> error + 'img list"
  postprocess_outputs ::
    "'img \<Rightarrow> 'img \<Rightarrow> 'img \<Rightarrow> InpaintingPreProcessTypes \<Rightarrow> InpaintingPostProcessTypes
      \<Rightarrow> InpaintingBlendingTypes \<Rightarrow> error + 'img"
  save_images :: "'img list \<Rightarrow> path \<Rightarrow> error option"
  mkdir :: "path \<Rightarrow> error option"
  pipe_load_textual_inversion :: "'p \<Rightarrow> textual_inversion_source \<Rightarrow> error + 'p"
  pipe_unload_textual_inversion :: "'p \<Rightarrow> string one_or_list option \<Rightarrow> error + 'p"

fun PIPELINE_MODEL_MAP ::
  "('img, 'k, 'g, 'p) collaborators \<Rightarrow> ImageGenTaskTypes \<Rightarrow> string option" where
  "PIPELINE_MODEL_MAP env TEXT2IMG = Some (TEXT2IMG_MODEL_ID env)"
| "PIPELINE_MODEL_MAP env IMG2IMG = Some (IMG2IMG_MODEL_ID env)"
| "PIPELINE_MODEL_MAP env INPAINTING = Some (INPAINTING_MODEL_ID env)"
| "PIPELINE_MODEL_MAP env OTHER_TASK = None"

subsection \<open>The object\<close>

text \<open>
  The two attributes of a \<^verbatim>\<open>StableDiffusion\<close> object, and the log of the calls it
  has made. A method takes the object and returns its outcome (\<open>Inl\<close> the exception
  raised, \<open>Inr\<close> the value returned) together with the object afterwards: what a
  method changed before it raised stays changed.
\<close>

record ('img, 'k, 'g, 'p) StableDiffusion =
  pipe :: "'p option"
  model_config :: "'g StableDiffusionModelConfig option"
  calls :: "('img, 'k, 'g) call list"

definition logged ::
  "('img, 'k, 'g) call \<Rightarrow> ('img, 'k, 'g, 'p) StableDiffusion
    \<Rightarrow> ('img, 'k, 'g, 'p) StableDiffusion" where
  "logged c s = s\<lparr>calls := calls s @ [c]\<rparr>"

text \<open>
  Isabelle names cannot start with an underscore: the private methods
  \<^verbatim>\<open>_check_model_ready\<close>, \<^verbatim>\<open>_load_pipeline\<close>, \<^verbatim>\<open>_load_model_hard_set\<close> and
  \<^verbatim>\<open>_generate_images_...\<close> are written without it.
\<close>

definition check_model_ready ::
  "('img, 'k, 'g, 'p) StableDiffusion \<Rightarrow> error + unit" where
  "check_model_ready s =
     (if pipe s = None then Inl (ValueError ''Model not loaded.'') else Inr ())"

text \<open>
  \<^verbatim>\<open>_load_pipeline(hf_model_id, model_path, device)\<close>. The two guards come first, then
  the two early returns (each reads \<^verbatim>\<open>self.model_config\<close>, which raises
  \<^verbatim>\<open>AttributeError\<close> on \<^verbatim>\<open>None\<close>), then the load itself, and the three
  assignments into the configuration object last.
\<close>

definition load_pipeline ::
  "('img, 'k, 'g, 'p) collaborators \<Rightarrow> string option \<Rightarrow> path option \<Rightarrow> string option
    \<Rightarrow> ('img, 'k, 'g, 'p) StableDiffusion
    \<Rightarrow> (error + unit) \<times> ('img, 'k, 'g, 'p) StableDiffusion" where
  "load_pipeline env hf_id m_path dev s =
     (if hf_id = None \<and> m_path = None
      then (Inl (ValueError ''Either hf_model_id or model_path must be provided.''), s)
      else if hf_id \<noteq> None \<and> m_path \<noteq> None
      then (Inl (ValueError ''Only one of hf_model_id or model_path should be provided.''), s)
      else
        (case model_config s of
           None \<Rightarrow> (Inl (AttributeError ''hf_model_id''), s)
         | Some mc \<Rightarrow>
             if hf_id \<noteq> None \<and> hf_model_id mc = hf_id \<and> pipe s \<noteq> None then (Inr (), s)
             else if m_path \<noteq> None \<and> model_path mc = m_path \<and> pipe s \<noteq> None
             then (Inr (), s)
             else
               let is_finetuned =
                     (case m_path of None \<Rightarrow> False
                      | Some p \<Rightarrow> ''diffusers_cache'' \<notin> set p);
                   model_descriptor =
                     (case m_path of Some p \<Rightarrow> path_str p
                      | None \<Rightarrow> (case hf_id of Some h \<Rightarrow> h | None \<Rightarrow> []));
                   dev' = (case dev of None \<Rightarrow> device mc | Some d \<Rightarrow> d)
               in
                 (case PIPELINE_CLS_MAP (task_type mc) of
                    None \<Rightarrow> (Inl (KeyError ''task_type''), s)
                  | Some pipeline_cls \<Rightarrow>
                      let (loaded, s1) =
                            (if is_finetuned
                             then (from_single_file env pipeline_cls model_descriptor dev',
                                   logged (FromSingleFile pipeline_cls model_descriptor dev') s)
                             else
                               let local_only =
                                     check_if_hf_cache_exists env (Single model_descriptor)
                               in (from_pretrained env pipeline_cls model_descriptor
                                     local_only dev',
                                   logged (FromPretrained pipeline_cls model_descriptor
                                     local_only dev')
                                     (logged (CheckHfCache (Single model_descriptor)) s)))
                      in
                        (case loaded of
                           Inl e \<Rightarrow> (Inl e, s1)
                         | Inr p \<Rightarrow>
                             (Inr (),
                              s1\<lparr>pipe :=
                                    Some (if \<not> check_nsfw mc then clear_safety_checker env p
                                          else p),
                                  model_config :=
                                    Some (mc\<lparr>hf_model_id := hf_id, model_path := m_path,
                                             device := dev'\<rparr>)\<rparr>)))))"

text \<open>
  \<^verbatim>\<open>update_pipeline(model_config)\<close>: the new configuration replaces the old one
  only when the load did not raise.
\<close>

definition update_pipeline ::
  "('img, 'k, 'g, 'p) collaborators \<Rightarrow> 'g StableDiffusionModelConfig
    \<Rightarrow> ('img, 'k, 'g, 'p) StableDiffusion
    \<Rightarrow> (error + unit) \<times> ('img, 'k, 'g, 'p) StableDiffusion" where
  "update_pipeline env new_config s =
     (case load_pipeline env (hf_model_id new_config) (model_path new_config)
             (Some (device new_config)) s of
        (Inl e, s') \<Rightarrow> (Inl e, s')
      | (Inr u, s') \<Rightarrow> (Inr (), s'\<lparr>model_config := Some new_config\<rparr>))"

text \<open>\<^verbatim>\<open>_load_model_hard_set()\<close>: load whatever the configuration names.\<close>

definition load_model_hard_set ::
  "('img, 'k, 'g, 'p) collaborators \<Rightarrow> ('img, 'k, 'g, 'p) StableDiffusion
    \<Rightarrow> (error + unit) \<times> ('img, 'k, 'g, 'p) StableDiffusion" where
  "load_model_hard_set env s =
     (case model_config s of
        None \<Rightarrow> (Inl (AttributeError ''hf_model_id''), s)
      | Some mc \<Rightarrow>
          if hf_model_id mc \<noteq> None then load_pipeline env (hf_model_id mc) None None s
          else if model_path mc \<noteq> None then load_pipeline env None (model_path mc) None s
          else
            (case PIPELINE_MODEL_MAP env (task_type mc) of
               None \<Rightarrow> (Inl (KeyError ''task_type''), s)
             | Some default_id \<Rightarrow> load_pipeline env (Some default_id) None None s))"

subsection \<open>Generating images\<close>

text \<open>
  \<^verbatim>\<open>for _ in range(config.num_batches): ... images.extend(pipeline_images)\<close>: the
  loop of the three generating methods, over the number of rounds left. An exception in
  the body leaves the loop and the method: the source has no \<^verbatim>\<open>try\<close>.
\<close>

fun batch_loop ::
  "(('img, 'k, 'g, 'p) StableDiffusion
      \<Rightarrow> (error + 'img list) \<times> ('img, 'k, 'g, 'p) StableDiffusion)
    \<Rightarrow> nat \<Rightarrow> 'img list \<Rightarrow> ('img, 'k, 'g, 'p) StableDiffusion
    \<Rightarrow> (error + 'img list) \<times> ('img, 'k, 'g, 'p) StableDiffusion" where
  "batch_loop body 0 images s = (Inr images, s)"
| "batch_loop body (Suc n) images s =
     (case body s of
        (Inl e, s') \<Rightarrow> (Inl e, s')
      | (Inr pipeline_images, s') \<Rightarrow> batch_loop body n (images @ pipeline_images) s')"

text \<open>
  \<^verbatim>\<open>self.pipe(..., generator=self.model_config.generator, ...).images\<close>. Python
  evaluates the arguments before it calls: a missing configuration raises first, a
  missing pipeline when the call is made.
\<close>

definition run_pipe ::
  "('img, 'k, 'g, 'p) collaborators \<Rightarrow> ('g \<Rightarrow> ('img, 'k, 'g) pipe_args)
    \<Rightarrow> ('img, 'k, 'g, 'p) StableDiffusion
    \<Rightarrow> (error + 'img list) \<times> ('img, 'k, 'g, 'p) StableDiffusion" where
  "run_pipe env args_of s =
     (case model_config s of
        None \<Rightarrow> (Inl (AttributeError ''generator''), s)
      | Some mc \<Rightarrow>
          (case pipe s of
             None \<Rightarrow> (Inl (TypeError ''NoneType object is not callable''), s)
           | Some p \<Rightarrow>
               let args = args_of (generator mc);
                   (outcome, p') = call_pipe env p args
               in (outcome, s\<lparr>pipe := Some p', calls := calls s @ [PipeCall args outcome]\<rparr>)))"

text \<open>\<^verbatim>\<open>if output_dir: save_images(images, output_dir, auto_index=True)\<close>.\<close>

definition save_if_requested ::
  "('img, 'k, 'g, 'p) collaborators \<Rightarrow> 'img list \<Rightarrow> path option
    \<Rightarrow> ('img, 'k, 'g, 'p) StableDiffusion
    \<Rightarrow> (error + 'img list) \<times> ('img, 'k, 'g, 'p) StableDiffusion" where
  "save_if_requested env images output_dir s =
     (case output_dir of
        None \<Rightarrow> (Inr images, s)
      | Some d \<Rightarrow>
          (case save_images env images d of
             Some e \<Rightarrow> (Inl e, logged (SaveImages images d) s)
           | None \<Rightarrow> (Inr images, logged (SaveImages images d) s)))"

definition generate_images_text2img ::
  "('img, 'k, 'g, 'p) collaborators \<Rightarrow> ('img, 'k) StableDiffusionInputConfig \<Rightarrow> path option
    \<Rightarrow> ('img, 'k, 'g, 'p) StableDiffusion
    \<Rightarrow> (error + 'img list) \<times> ('img, 'k, 'g, 'p) StableDiffusion" where
  "generate_images_text2img env config output_dir s =
     (case load_model_hard_set env s of
        (Inl e, s0) \<Rightarrow> (Inl e, s0)
      | (Inr u, s0) \<Rightarrow>
          (case batch_loop
                  (run_pipe env (Text2ImgArgs (sampling config) (height config) (width config)))
                  (nat (num_batches config)) [] s0 of
             (Inl e, s1) \<Rightarrow> (Inl e, s1)
           | (Inr images, s1) \<Rightarrow> save_if_requested env images output_dir s1))"

definition generate_images_img2img ::
  "('img, 'k, 'g, 'p) collaborators \<Rightarrow> ('img, 'k) StableDiffusionInputConfig \<Rightarrow> path option
    \<Rightarrow> ('img, 'k, 'g, 'p) StableDiffusion
    \<Rightarrow> (error + 'img list) \<times> ('img, 'k, 'g, 'p) StableDiffusion" where
  "generate_images_img2img env config output_dir s =
     (case load_model_hard_set env s of
        (Inl e, s0) \<Rightarrow> (Inl e, s0)
      | (Inr u, s0) \<Rightarrow>
          (case batch_loop
                  (run_pipe env (Img2ImgArgs (sampling config) (input_image config)))
                  (nat (num_batches config)) [] s0 of
             (Inl e, s1) \<Rightarrow> (Inl e, s1)
           | (Inr images, s1) \<Rightarrow> save_if_requested env images output_dir s1))"

text \<open>
  \<^verbatim>\<open>image, mask_image = preprocess_inputs(...)\<close>: the assignment unpacks exactly two
  values and raises \<^verbatim>\<open>ValueError\<close> on any other number.
\<close>

fun unpack2 :: "'a list \<Rightarrow> error + ('a \<times> 'a)" where
  "unpack2 [a, b] = Inr (a, b)"
| "unpack2 vs =
     Inl (ValueError (if length vs < 2 then ''not enough values to unpack (expected 2)''
                      else ''too many values to unpack (expected 2)''))"

text \<open>
  The list comprehension over \<^verbatim>\<open>pipeline_images\<close>: one call of
  \<^verbatim>\<open>postprocess_outputs\<close> per generated image, in order, always with the image and
  the mask of the configuration.
\<close>

fun postprocess_all ::
  "('img, 'k, 'g, 'p) collaborators \<Rightarrow> ('img, 'k) StableDiffusionInputConfig \<Rightarrow> 'img list
    \<Rightarrow> ('img, 'k, 'g, 'p) StableDiffusion
    \<Rightarrow> (error + 'img list) \<times> ('img, 'k, 'g, 'p) StableDiffusion" where
  "postprocess_all env config [] s = (Inr [], s)"
| "postprocess_all env config (inpainted_image # rest) s =
     (let s1 = logged (PostprocessOutputs (input_image config) (mask_image config)
                 inpainted_image (preprocess_type config) (postprocess_type config)
                 (blending_type config)) s
      in
        case postprocess_outputs env (input_image config) (mask_image config)
               inpainted_image (preprocess_type config) (postprocess_type config)
               (blending_type config) of
          Inl e \<Rightarrow> (Inl e, s1)
        | Inr final \<Rightarrow>
            (case postprocess_all env config rest s1 of
               (Inl e, s2) \<Rightarrow> (Inl e, s2)
             | (Inr finals, s2) \<Rightarrow> (Inr (final # finals), s2)))"

text \<open>The body of the loop of \<^verbatim>\<open>_generate_images_inpainting\<close>.\<close>

definition inpainting_batch ::
  "('img, 'k, 'g, 'p) collaborators \<Rightarrow> ('img, 'k) StableDiffusionInputConfig
    \<Rightarrow> ('img, 'k, 'g, 'p) StableDiffusion
    \<Rightarrow> (error + 'img list) \<times> ('img, 'k, 'g, 'p) StableDiffusion" where
  "inpainting_batch env config s =
     (let s1 = logged (PreprocessInputs (input_image config) (mask_image config)
                 (preprocess_type config) (width config) (height config)) s
      in
        case preprocess_inputs env (input_image config) (mask_image config)
               (preprocess_type config) (width config) (height config) of
          Inl e \<Rightarrow> (Inl e, s1)
        | Inr returned \<Rightarrow>
            (case unpack2 returned of
               Inl e \<Rightarrow> (Inl e, s1)
             | Inr (region_image, region_mask) \<Rightarrow>
                 (case run_pipe env
                         (InpaintArgs (sampling config) region_image region_mask (height config)
                            (width config)) s1 of
                    (Inl e, s2) \<Rightarrow> (Inl e, s2)
                  | (Inr pipeline_images, s2) \<Rightarrow>
                      postprocess_all env config pipeline_images s2)))"

definition generate_images_inpainting ::
  "('img, 'k, 'g, 'p) collaborators \<Rightarrow> ('img, 'k) StableDiffusionInputConfig \<Rightarrow> path option
    \<Rightarrow> ('img, 'k, 'g, 'p) StableDiffusion
    \<Rightarrow> (error + 'img list) \<times> ('img, 'k, 'g, 'p) StableDiffusion" where
  "generate_images_inpainting env config output_dir s =
     (case load_model_hard_set env s of
        (Inl e, s0) \<Rightarrow> (Inl e, s0)
      | (Inr u, s0) \<Rightarrow>
          (case batch_loop (inpainting_batch env config) (nat (num_batches config)) [] s0 of
             (Inl e, s1) \<Rightarrow> (Inl e, s1)
           | (Inr images, s1) \<Rightarrow> save_if_requested env images output_dir s1))"

text \<open>
  \<^verbatim>\<open>generate_images(config, output_dir=None)\<close>. \<^verbatim>\<open>output_dir.mkdir(...)\<close> is
  an attribute access on \<^verbatim>\<open>None\<close> when no directory is given.
\<close>

definition generate_images ::
  "('img, 'k, 'g, 'p) collaborators \<Rightarrow> ('img, 'k) StableDiffusionInputConfig \<Rightarrow> path option
    \<Rightarrow> ('img, 'k, 'g, 'p) StableDiffusion
    \<Rightarrow> (error + 'img list) \<times> ('img, 'k, 'g, 'p) StableDiffusion" where
  "generate_images env config output_dir s =
     (case check_model_ready s of
        Inl e \<Rightarrow> (Inl e, s)
      | Inr u \<Rightarrow>
          (case output_dir of
             None \<Rightarrow> (Inl (AttributeError ''mkdir''), s)
           | Some d \<Rightarrow>
               (case mkdir env d of
                  Some e \<Rightarrow> (Inl e, logged (Mkdir d) s)
                | None \<Rightarrow>
                    (case (case scheduler_type config of
                             None \<Rightarrow> (Inr (), logged (Mkdir d) s)
                           | Some t \<Rightarrow>
                               (case pipe s of
                                  None \<Rightarrow> (Inl (AttributeError ''scheduler''),
                                            logged (Mkdir d) s)
                                | Some p \<Rightarrow>
                                    (case get_scheduler env t p of
                                       Inl e \<Rightarrow>
                                         (Inl e, logged (GetScheduler t) (logged (Mkdir d) s))
                                     | Inr p' \<Rightarrow>
                                         (Inr (),
                                          (logged (GetScheduler t) (logged (Mkdir d) s))
                                            \<lparr>pipe := Some p'\<rparr>)))) of
                       (Inl e, s1) \<Rightarrow> (Inl e, s1)
                     | (Inr u', s1) \<Rightarrow>
                         (case model_config s1 of
                            None \<Rightarrow> (Inl (AttributeError ''task_type''), s1)
                          | Some mc \<Rightarrow>
                              if task_type mc = TEXT2IMG
                              then generate_images_text2img env config output_dir s1
                              else if task_type mc = IMG2IMG
                              then generate_images_img2img env config output_dir s1
                              else if task_type mc = INPAINTING
                              then generate_images_inpainting env config output_dir s1
                              else (Inl (ValueError ''Unsupported task type''), s1))))))"

subsection \<open>Textual inversion\<close>

definition load_textual_inversion ::
  "('img, 'k, 'g, 'p) collaborators \<Rightarrow> string one_or_list option \<Rightarrow> path one_or_list option
    \<Rightarrow> string one_or_list option \<Rightarrow> ('img, 'k, 'g, 'p) StableDiffusion
    \<Rightarrow> (error + unit) \<times> ('img, 'k, 'g, 'p) StableDiffusion" where
  "load_textual_inversion env hf_id file_path token s =
     (case pipe s of
        None \<Rightarrow> (Inl (ValueError ''Model not loaded.''), s)
      | Some p \<Rightarrow>
          (case (case file_path of
                   Some fp \<Rightarrow>
                     (case token of
                        None \<Rightarrow>
                          Inl (ValueError
                                 ''tokens must be provided when file_paths is provided.'')
                      | Some tk \<Rightarrow>
                          (case (fp, tk) of
                             (Listed fs, Listed ts) \<Rightarrow>
                               if length fs \<noteq> length ts
                               then Inl (ValueError
                                      ''Number of file paths and tokens must be the same.'')
                               else Inr (FromFiles fp tk)
                           | (Single f, Single t) \<Rightarrow> Inr (FromFiles fp tk)
                           | _ \<Rightarrow>
                               Inl (ValueError
                                 ''file_path and token must be either both single values or both lists.'')))
                 | None \<Rightarrow>
                     (case hf_id of
                        Some h \<Rightarrow> Inr (FromHub h (check_if_hf_cache_exists env h))
                      | None \<Rightarrow>
                          Inl (ValueError
                                 ''Either file_path or hf_model_id must be provided.''))) of
             Inl e \<Rightarrow> (Inl e, s)
           | Inr src \<Rightarrow>
               let s1 = (case src of
                           FromHub h b \<Rightarrow> logged (LoadTextualInversion src)
                                            (logged (CheckHfCache h) s)
                         | FromFiles fp tk \<Rightarrow> logged (LoadTextualInversion src) s)
               in
                 (case pipe_load_textual_inversion env p src of
                    Inl e \<Rightarrow> (Inl e, s1)
                  | Inr p' \<Rightarrow> (Inr (), s1\<lparr>pipe := Some p'\<rparr>))))"

text \<open>
  \<^verbatim>\<open>unload_textual_inversion(tokens)\<close> and \<^verbatim>\<open>unload_all_textual_inversion()\<close>: the
  second calls the pipeline's method with no tokens.
\<close>

definition unload_with ::
  "('img, 'k, 'g, 'p) collaborators \<Rightarrow> string one_or_list option
    \<Rightarrow> ('img, 'k, 'g, 'p) StableDiffusion
    \<Rightarrow> (error + unit) \<times> ('img, 'k, 'g, 'p) StableDiffusion" where
  "unload_with env tokens s =
     (case pipe s of
        None \<Rightarrow> (Inl (ValueError ''Model not loaded.''), s)
      | Some p \<Rightarrow>
          (case pipe_unload_textual_inversion env p tokens of
             Inl e \<Rightarrow> (Inl e, logged (UnloadTextualInversion tokens) s)
           | Inr p' \<Rightarrow>
               (Inr (), (logged (UnloadTextualInversion tokens) s)\<lparr>pipe := Some p'\<rparr>)))"

definition unload_textual_inversion ::
  "('img, 'k, 'g, 'p) collaborators \<Rightarrow> string one_or_list
    \<Rightarrow> ('img, 'k, 'g, 'p) StableDiffusion
    \<Rightarrow> (error + unit) \<times> ('img, 'k, 'g, 'p) StableDiffusion" where
  "unload_textual_inversion env tokens s = unload_with env (Some tokens) s"

definition unload_all_textual_inversion ::
  "('img, 'k, 'g, 'p) collaborators \<Rightarrow> ('img, 'k, 'g, 'p) StableDiffusion
    \<Rightarrow> (error + unit) \<times> ('img, 'k, 'g, 'p) StableDiffusion" where
  "unload_all_textual_inversion env s = unload_with env None s"

section \<open>Describing a run of the inpainting method\<close>

text \<open>
  One round of the loop, as a bystander sees it: the pair that
  \<^verbatim>\<open>preprocess_inputs\<close> returned, the images the pipeline generated from it, and the
  final images \<^verbatim>\<open>postprocess_outputs\<close> made of them. \<open>item_result_ok\<close> says
  that the four belong together, \<open>item_calls\<close> lists the calls of the round in
  order, \<open>item_finals\<close> is what the round adds to the result.
\<close>

definition item_result_ok ::
  "('img, 'k, 'g, 'p) collaborators \<Rightarrow> ('img, 'k) StableDiffusionInputConfig
    \<Rightarrow> 'img \<times> 'img \<times> 'img list \<times> 'img list \<Rightarrow> bool" where
  "item_result_ok env config item =
     (case item of (region_image, region_mask, generated, finals) \<Rightarrow>
        preprocess_inputs env (input_image config) (mask_image config)
          (preprocess_type config) (width config) (height config)
          = Inr [region_image, region_mask]
        \<and> list_all2
            (\<lambda>inpainted final.
               postprocess_outputs env (input_image config) (mask_image config) inpainted
                 (preprocess_type config) (postprocess_type config) (blending_type config)
                 = Inr final)
            generated finals)"

definition item_calls ::
  "('img, 'k) StableDiffusionInputConfig \<Rightarrow> 'g
    \<Rightarrow> 'img \<times> 'img \<times> 'img list \<times> 'img list \<Rightarrow> ('img, 'k, 'g) call list" where
  "item_calls config g item =
     (case item of (region_image, region_mask, generated, finals) \<Rightarrow>
        [PreprocessInputs (input_image config) (mask_image config) (preprocess_type config)
           (width config) (height config),
         PipeCall (InpaintArgs (sampling config) region_image region_mask (height config)
           (width config) g) (Inr generated)]
        @ map (\<lambda>inpainted.
                 PostprocessOutputs (input_image config) (mask_image config) inpainted
                   (preprocess_type config) (postprocess_type config) (blending_type config))
            generated)"

definition item_finals :: "'img \<times> 'img \<times> 'img list \<times> 'img list \<Rightarrow> 'img list" where
  "item_finals item = (case item of (region_image, region_mask, generated, finals) \<Rightarrow> finals)"

text \<open>The calls a method added to the log of the object.\<close>

definition new_calls ::
  "('img, 'k, 'g, 'p) StableDiffusion \<Rightarrow> ('img, 'k, 'g, 'p) StableDiffusion
    \<Rightarrow> ('img, 'k, 'g) call list" where
  "new_calls s s' = drop (length (calls s)) (calls s')"

text \<open>
  What holds of the calls \<open>new\<close> that a run of the inpainting method (or of a part
  of it) added, when the run ended with \<open>outcome\<close>:
  \<^item> a pipeline call that raised is the last call, and its exception is the outcome;
  \<^item> the first image of whatever a pipeline call returned went to
    \<^verbatim>\<open>postprocess_outputs\<close>, and every image did when the run returned;
  \<^item> a pipeline call was made with the two values \<^verbatim>\<open>preprocess_inputs\<close> returned;
  \<^item> a call of \<^verbatim>\<open>postprocess_outputs\<close> got the image, the mask and the three
    policies of the configuration, and an image that a pipeline call returned.
\<close>

definition inpainting_log_ok ::
  "('img, 'k, 'g, 'p) collaborators \<Rightarrow> ('img, 'k) StableDiffusionInputConfig
    \<Rightarrow> error + 'img list \<Rightarrow> ('img, 'k, 'g) call list \<Rightarrow> bool" where
  "inpainting_log_ok env config outcome new \<longleftrightarrow>
     (\<forall>a e. PipeCall a (Inl e) \<in> set new \<longrightarrow>
        outcome = Inl e \<and> last new = PipeCall a (Inl e))
   \<and> (\<forall>a x more. PipeCall a (Inr (x # more)) \<in> set new \<longrightarrow>
        PostprocessOutputs (input_image config) (mask_image config) x
          (preprocess_type config) (postprocess_type config) (blending_type config)
          \<in> set new)
   \<and> (\<forall>a generated x. (\<exists>images. outcome = Inr images) \<longrightarrow>
        PipeCall a (Inr generated) \<in> set new \<longrightarrow> x \<in> set generated \<longrightarrow>
        PostprocessOutputs (input_image config) (mask_image config) x
          (preprocess_type config) (postprocess_type config) (blending_type config)
          \<in> set new)
   \<and> (\<forall>a r. PipeCall a r \<in> set new \<longrightarrow>
        (\<exists>region_image region_mask g.
           preprocess_inputs env (input_image config) (mask_image config)
             (preprocess_type config) (width config) (height config)
             = Inr [region_image, region_mask]
         \<and> a = InpaintArgs (sampling config) region_image region_mask (height config)
                 (width config) g))
   \<and> (\<forall>i m x pre post bl. PostprocessOutputs i m x pre post bl \<in> set new \<longrightarrow>
        i = input_image config \<and> m = mask_image config \<and> pre = preprocess_type config
        \<and> post = postprocess_type config \<and> bl = blending_type config
        \<and> (\<exists>a generated. PipeCall a (Inr generated) \<in> set new \<and> x \<in> set generated))"

text \<open>The calls that load a pipeline.\<close>

fun is_load_call :: "('img, 'k, 'g) call \<Rightarrow> bool" where
  "is_load_call (CheckHfCache m) = True"
| "is_load_call (FromSingleFile c d dev) = True"
| "is_load_call (FromPretrained c d l dev) = True"
| "is_load_call c = False"

section \<open>A small world to run the methods in\<close>

text \<open>
  Concrete collaborators, for running the methods on examples. An image is a content
  tag with a width and a height. The pipeline object is a counter of the calls made to
  it: a call returns one image of the requested size, tagged with the counter, except
  that the call at counter 1 raises. \<^verbatim>\<open>postprocess_outputs\<close> returns an image of the
  size of the original.
\<close>

type_synonym demo_image = "nat \<times> int \<times> int"

definition demo_env :: "(demo_image, unit, unit, nat) collaborators" where
  "demo_env =
     \<lparr>TEXT2IMG_MODEL_ID = ''text2img-model'',
      IMG2IMG_MODEL_ID = ''img2img-model'',
      INPAINTING_MODEL_ID = ''inpainting-model'',
      check_if_hf_cache_exists = (\<lambda>m. True),
      from_single_file = (\<lambda>c d dev. Inr 0),
      from_pretrained = (\<lambda>c d l dev. Inr 0),
      clear_safety_checker = (\<lambda>p. p),
      get_scheduler = (\<lambda>t p. Inr p),
      call_pipe = (\<lambda>p args.
        (if p = 1 then Inl (CollaboratorError ''generation failed'')
         else Inr [(p, pa_width args, pa_height args)], p + 1)),
      preprocess_inputs = (\<lambda>i m t w h. Inr [(fst i, w, h), (fst m, w, h)]),
      postprocess_outputs = (\<lambda>i m out pre post bl. Inr (fst out + 100, snd i)),
      save_images = (\<lambda>imgs d. None),
      mkdir = (\<lambda>d. None),
      pipe_load_textual_inversion = (\<lambda>p src. Inr p),
      pipe_unload_textual_inversion = (\<lambda>p t. Inr p)\<rparr>"

text \<open>A \<^verbatim>\<open>preprocess_inputs\<close> that returns three values instead of two.\<close>

definition demo_env_triple :: "(demo_image, unit, unit, nat) collaborators" where
  "demo_env_triple =
     demo_env\<lparr>preprocess_inputs :=
       (\<lambda>i m t w h. Inr [(fst i, w, h), (fst m, w, h), (99, 0, 0)])\<rparr>"

text \<open>A pipeline that returns a 1 by 1 image whatever size was requested.\<close>

definition demo_env_misshapen :: "(demo_image, unit, unit, nat) collaborators" where
  "demo_env_misshapen = demo_env\<lparr>call_pipe := (\<lambda>p args. (Inr [(p, 1, 1)], p + 1))\<rparr>"

definition demo_model_config :: "unit StableDiffusionModelConfig" where
  "demo_model_config =
     \<lparr>hf_model_id = Some ''inpainting-model'', model_path = None, device = ''cuda'',
      task_type = INPAINTING, check_nsfw = False, seed = Some 7, generator = ()\<rparr>"

definition demo_input :: "(demo_image, unit) StableDiffusionInputConfig" where
  "demo_input =
     \<lparr>input_image = (1, 512, 512), mask_image = (2, 512, 512), width = 256, height = 256,
      num_batches = 3, preprocess_type = PreProcess_CROP_AND_RESIZE,
      postprocess_type = PostProcess_DIRECT_REPLACE, blending_type = Blending_NONE,
      scheduler_type = None, sampling = ()\<rparr>"

text \<open>An object whose pipeline attribute is \<open>p\<close> and that has made no call yet.\<close>

definition demo_object :: "nat option \<Rightarrow> (demo_image, unit, unit, nat) StableDiffusion" where
  "demo_object p = \<lparr>pipe = p, model_config = Some demo_model_config, calls = []\<rparr>"

section \<open>The geometry engine and the compositor, from the specification\<close>

text \<open>
  The module \<^verbatim>\<open>gen_ai.image_gen.utils.inpainting_utils\<close>, from which the wrapper
  imports \<^verbatim>\<open>preprocess_inputs\<close> and \<^verbatim>\<open>postprocess_outputs\<close>, is not among the
  sources. What the specification says of its bounding box and of its compositing is
  written out here. A grid is a width, a height and the value at every coordinate; only
  coordinates inside the width and the height mean anything. Pixel values are real
  numbers, one per colour channel.
\<close>

datatype core_error = GeometryError string | PolicyError string | ContractViolationError string

type_synonym pixel = "real \<times> real \<times> real"

record 'a grid =
  grid_width :: nat
  grid_height :: nat
  px :: "nat \<Rightarrow> nat \<Rightarrow> 'a"

record BoundingBox =
  bb_left :: nat
  bb_top :: nat
  bb_right :: nat
  bb_bottom :: nat

record RegionMapping =
  source_box :: BoundingBox
  out_width :: nat
  out_height :: nat
  policy :: InpaintingPreProcessTypes

text \<open>
  Modelled from the spec: the scan of \<^verbatim>\<open>compute_bounding_box\<close>, which is missing
  from the sources. The coordinates of the pixels of the mask above the masked
  threshold, row by row.
\<close>

definition marked_pixels :: "real \<Rightarrow> real grid \<Rightarrow> (nat \<times> nat) list" where
  "marked_pixels threshold mask_grid =
     concat (map (\<lambda>y. map (\<lambda>x. (x, y))
                          (filter (\<lambda>x. threshold < px mask_grid x y)
                             [0..<grid_width mask_grid]))
               [0..<grid_height mask_grid])"

text \<open>
  Modelled from the spec: \<^verbatim>\<open>compute_bounding_box(mask) -> BoundingBox\<close>, missing from
  the sources. The minimal axis-aligned rectangle around all pixels above the threshold,
  right and bottom exclusive; an empty-region geometry error when no pixel exceeds the
  threshold.
\<close>

definition compute_bounding_box :: "real \<Rightarrow> real grid \<Rightarrow> core_error + BoundingBox" where
  "compute_bounding_box threshold mask_grid =
     (let marked = marked_pixels threshold mask_grid
      in if marked = [] then Inl (GeometryError ''empty region'')
         else Inr \<lparr>bb_left = Min (set (map fst marked)),
                   bb_top = Min (set (map snd marked)),
                   bb_right = Suc (Max (set (map fst marked))),
                   bb_bottom = Suc (Max (set (map snd marked)))\<rparr>)"

text \<open>
  Modelled from the spec: the invariant of a bounding box inside an image
  (\<open>0 \<le> left < right \<le> width\<close>, \<open>0 \<le> top < bottom \<le> height\<close>); the type is missing
  from the sources.
\<close>

definition box_within :: "BoundingBox \<Rightarrow> 'a grid \<Rightarrow> bool" where
  "box_within box g \<longleftrightarrow>
     bb_left box < bb_right box \<and> bb_right box \<le> grid_width g
     \<and> bb_top box < bb_bottom box \<and> bb_bottom box \<le> grid_height g"

text \<open>
  The numeric kernels the specification names without fixing them: the resize of an
  image to a width and a height, the smoothing of the mask for the GAUSSIAN, SMOOTH
  and SMOOTHER variants, and the Poisson solve (placed patch, mask, original).
\<close>

record kernels =
  resize_image :: "pixel grid \<Rightarrow> nat \<Rightarrow> nat \<Rightarrow> pixel grid"
  smooth_mask :: "InpaintingBlendingTypes \<Rightarrow> real grid \<Rightarrow> real grid"
  poisson_solve :: "pixel grid \<Rightarrow> real grid \<Rightarrow> pixel grid \<Rightarrow> pixel grid"

text \<open>
  Modelled from the spec: steps 1 and 2 of \<^verbatim>\<open>composite\<close>, missing from the sources.
  The model output is resized to the size of the recorded box; for CROP_AND_RESIZE it is
  placed at the origin of the box on the original image, for NONE and RESIZE it covers
  the whole image.
\<close>

definition placed_patch ::
  "kernels \<Rightarrow> pixel grid \<Rightarrow> RegionMapping \<Rightarrow> pixel grid \<Rightarrow> pixel grid" where
  "placed_patch K original_image mapping model_output =
     (let box = source_box mapping;
          patch = resize_image K model_output (bb_right box - bb_left box)
                    (bb_bottom box - bb_top box)
      in if policy mapping = PreProcess_CROP_AND_RESIZE
         then original_image\<lparr>px :=
                (\<lambda>x y. if bb_left box \<le> x \<and> x < bb_right box
                           \<and> bb_top box \<le> y \<and> y < bb_bottom box
                        then px patch (x - bb_left box) (y - bb_top box)
                        else px original_image x y)\<rparr>
         else original_image\<lparr>px := px patch\<rparr>)"

text \<open>
  Modelled from the spec: the LINEAR rule \<open>out = mask*patch + (1-mask)*original\<close> on
  one pixel, channel by channel, for a weight already normalized to [0,1]. The blending
  code is missing from the sources.
\<close>

definition convex_mix :: "real \<Rightarrow> pixel \<Rightarrow> pixel \<Rightarrow> pixel" where
  "convex_mix w patch_px original_px =
     (case patch_px of (r1, g1, b1) \<Rightarrow>
        (case original_px of (r2, g2, b2) \<Rightarrow>
           (w * r1 + (1 - w) * r2, w * g1 + (1 - w) * g2, w * b1 + (1 - w) * b2)))"

text \<open>
  Modelled from the spec: the per-pixel convex combination over a whole image, with the
  mask value divided by the largest mask value as the weight. The result has the
  dimensions of the original image. The blending code is missing from the sources.
\<close>

definition convex_combination ::
  "real \<Rightarrow> real grid \<Rightarrow> pixel grid \<Rightarrow> pixel grid \<Rightarrow> pixel grid" where
  "convex_combination mask_max weights patch original_image =
     original_image\<lparr>px :=
       (\<lambda>x y. convex_mix (px weights x y / mask_max) (px patch x y)
                 (px original_image x y))\<rparr>"

text \<open>
  Modelled from the spec: \<^verbatim>\<open>composite(original_image, original_mask, model_output,
  mapping, postprocess_policy, blend_variant) -> final_image\<close> of section 4.3, missing
  from the sources. The three error conditions come first (mismatched dimensions, an
  empty mask when DIRECT_REPLACE or BLEND is requested, a box that exceeds the image),
  each a geometry error; then the policy is applied to the placed patch. NONE is valid
  only when the patch covers the whole image, and BLEND needs a blend variant: both are
  policy errors otherwise.
\<close>

definition composite ::
  "kernels \<Rightarrow> real \<Rightarrow> real \<Rightarrow> pixel grid \<Rightarrow> real grid \<Rightarrow> pixel grid \<Rightarrow> RegionMapping
    \<Rightarrow> InpaintingPostProcessTypes \<Rightarrow> InpaintingBlendingTypes \<Rightarrow> core_error + pixel grid" where
  "composite K mask_max threshold original_image original_mask model_output mapping
     postprocess_policy blend_variant =
     (if grid_width original_mask \<noteq> grid_width original_image
         \<or> grid_height original_mask \<noteq> grid_height original_image
      then Inl (GeometryError ''mismatched dimensions'')
      else if postprocess_policy \<noteq> PostProcess_NONE
              \<and> isl (compute_bounding_box threshold original_mask)
      then Inl (GeometryError ''empty mask'')
      else if \<not> box_within (source_box mapping) original_image
      then Inl (GeometryError ''bounding box exceeds image'')
      else
        let placed = placed_patch K original_image mapping model_output
        in case postprocess_policy of
             PostProcess_NONE \<Rightarrow>
               if policy mapping = PreProcess_CROP_AND_RESIZE
               then Inl (PolicyError ''NONE needs a patch that covers the whole image'')
               else Inr placed
           | PostProcess_DIRECT_REPLACE \<Rightarrow>
               Inr (original_image\<lparr>px :=
                      (\<lambda>x y. if threshold < px original_mask x y then px placed x y
                              else px original_image x y)\<rparr>)
           | PostProcess_BLEND \<Rightarrow>
               (case blend_variant of
                  Blending_NONE \<Rightarrow> Inl (PolicyError ''BLEND needs a blend variant'')
                | POISSON_BLENDING \<Rightarrow>
                    Inr (poisson_solve K placed original_mask original_image)
                | LINEAR_BLENDING \<Rightarrow>
                    Inr (convex_combination mask_max original_mask placed original_image)
                | GAUSSIAN_BLENDING \<Rightarrow>
                    Inr (convex_combination mask_max
                           (smooth_mask K GAUSSIAN_BLENDING original_mask) placed
                           original_image)
                | SMOOTH_BLENDING \<Rightarrow>
                    Inr (convex_combination mask_max
                           (smooth_mask K SMOOTH_BLENDING original_mask) placed
                           original_image)
                | SMOOTHER_BLENDING \<Rightarrow>
                    Inr (convex_combination mask_max
                           (smooth_mask K SMOOTHER_BLENDING original_mask) placed
                           original_image)))"

text \<open>
  A two by one example: a black original, a white model output, and a mask that keeps
  the left pixel (0) and replaces the right one (255). The resize kernel of the example
  only relabels the size.
\<close>

definition demo_kernels :: kernels where
  "demo_kernels =
     \<lparr>resize_image = (\<lambda>g w h. g\<lparr>grid_width := w, grid_height := h\<rparr>),
      smooth_mask = (\<lambda>v m. m),
      poisson_solve = (\<lambda>placed m original. placed)\<rparr>"

definition demo_original :: "pixel grid" where
  "demo_original = \<lparr>grid_width = 2, grid_height = 1, px = (\<lambda>x y. (0, 0, 0))\<rparr>"

definition demo_output :: "pixel grid" where
  "demo_output = \<lparr>grid_width = 2, grid_height = 1, px = (\<lambda>x y. (255, 255, 255))\<rparr>"

definition demo_mask :: "real grid" where
  "demo_mask = \<lparr>grid_width = 2, grid_height = 1, px = (\<lambda>x y. if x = 0 then 0 else 255)\<rparr>"

definition demo_zero_mask :: "real grid" where
  "demo_zero_mask = \<lparr>grid_width = 2, grid_height = 1, px = (\<lambda>x y. 0)\<rparr>"

definition demo_mapping :: RegionMapping where
  "demo_mapping =
     \<lparr>source_box = \<lparr>bb_left = 0, bb_top = 0, bb_right = 2, bb_bottom = 1\<rparr>,
      out_width = 2, out_height = 1, policy = PreProcess_RESIZE\<rparr>"

section \<open>Properties of the wrapper\<close>

subsection \<open>How the log of a run is built\<close>

lemma unpack2_Inr: "unpack2 vs = Inr (a, b) \<longleftrightarrow> vs = [a, b]"
  by (cases vs rule: unpack2.cases) auto

lemma postprocess_all_Inr:
  "postprocess_all env config generated s = (Inr finals, s') \<Longrightarrow>
     list_all2
       (\<lambda>inpainted final.
          postprocess_outputs env (input_image config) (mask_image config) inpainted
            (preprocess_type config) (postprocess_type config) (blending_type config)
            = Inr final)
       generated finals
     \<and> s' = s\<lparr>calls := calls s @
           map (\<lambda>inpainted.
                  PostprocessOutputs (input_image config) (mask_image config) inpainted
                    (preprocess_type config) (postprocess_type config)
                    (blending_type config))
             generated\<rparr>"
proof (induction generated arbitrary: s finals s')
  case Nil
  then show ?case by simp
next
  case (Cons x xs)
  let ?c = "PostprocessOutputs (input_image config) (mask_image config) x
              (preprocess_type config) (postprocess_type config) (blending_type config)"
  from Cons.prems obtain final rest where
    p: "postprocess_outputs env (input_image config) (mask_image config) x
          (preprocess_type config) (postprocess_type config) (blending_type config)
        = Inr final"
    and r: "postprocess_all env config xs (logged ?c s) = (Inr rest, s')"
    and f: "finals = final # rest"
    by (auto simp: Let_def split: sum.splits prod.splits)
  from Cons.IH [OF r] p f show ?case
    by (simp add: logged_def)
qed

lemma run_pipe_Inr:
  "run_pipe env args_of s = (Inr generated, s') \<Longrightarrow>
     \<exists>mc p p'. model_config s = Some mc \<and> pipe s = Some p
       \<and> call_pipe env p (args_of (generator mc)) = (Inr generated, p')
       \<and> s' = s\<lparr>pipe := Some p',
                 calls := calls s @ [PipeCall (args_of (generator mc)) (Inr generated)]\<rparr>"
  by (auto simp: run_pipe_def Let_def split: option.splits prod.splits)

lemma inpainting_batch_Inr:
  assumes "inpainting_batch env config s = (Inr finals, s')"
  shows "\<exists>mc region_image region_mask generated.
           model_config s = Some mc
         \<and> item_result_ok env config (region_image, region_mask, generated, finals)
         \<and> model_config s' = model_config s
         \<and> pipe s' \<noteq> None
         \<and> calls s' = calls s @ item_calls config (generator mc)
                         (region_image, region_mask, generated, finals)"
proof -
  let ?s1 = "logged (PreprocessInputs (input_image config) (mask_image config)
                 (preprocess_type config) (width config) (height config)) s"
  from assms obtain returned where pre:
    "preprocess_inputs env (input_image config) (mask_image config)
       (preprocess_type config) (width config) (height config) = Inr returned"
    by (auto simp: inpainting_batch_def Let_def split: sum.splits)
  from assms pre obtain ri rm where un: "unpack2 returned = Inr (ri, rm)"
    by (auto simp: inpainting_batch_def Let_def split: sum.splits)
  then have ret: "returned = [ri, rm]" by (simp add: unpack2_Inr)
  from assms pre un obtain generated s2 where
    rp: "run_pipe env (InpaintArgs (sampling config) ri rm (height config) (width config)) ?s1
           = (Inr generated, s2)"
    and pp: "postprocess_all env config generated s2 = (Inr finals, s')"
    by (auto simp: inpainting_batch_def Let_def split: sum.splits prod.splits)
  from run_pipe_Inr [OF rp] obtain mc p p' where
    mc: "model_config ?s1 = Some mc" and
    s2: "s2 = ?s1\<lparr>pipe := Some p',
                 calls := calls ?s1 @ [PipeCall (InpaintArgs (sampling config) ri rm
                    (height config) (width config) (generator mc)) (Inr generated)]\<rparr>"
    by blast
  from postprocess_all_Inr [OF pp] have
    l2: "list_all2
       (\<lambda>inpainted final.
          postprocess_outputs env (input_image config) (mask_image config) inpainted
            (preprocess_type config) (postprocess_type config) (blending_type config)
            = Inr final)
       generated finals"
    and s': "s' = s2\<lparr>calls := calls s2 @
           map (\<lambda>inpainted.
                  PostprocessOutputs (input_image config) (mask_image config) inpainted
                    (preprocess_type config) (postprocess_type config)
                    (blending_type config))
             generated\<rparr>"
    by blast+
  have "model_config s = Some mc" using mc by (simp add: logged_def)
  moreover have "item_result_ok env config (ri, rm, generated, finals)"
    using pre ret l2 by (simp add: item_result_ok_def)
  moreover have "model_config s' = model_config s" using s' s2 by (simp add: logged_def)
  moreover have "pipe s' \<noteq> None" using s' s2 by simp
  moreover have "calls s' = calls s @ item_calls config (generator mc) (ri, rm, generated, finals)"
    using s' s2 by (simp add: logged_def item_calls_def)
  ultimately show ?thesis by blast
qed

lemma batch_loop_inpainting_Inr:
  "batch_loop (inpainting_batch env config) n acc s = (Inr images, s') \<Longrightarrow>
   model_config s = Some mc \<Longrightarrow>
     \<exists>items. length items = n
       \<and> list_all (item_result_ok env config) items
       \<and> images = acc @ concat (map item_finals items)
       \<and> model_config s' = Some mc
       \<and> calls s' = calls s @ concat (map (item_calls config (generator mc)) items)"
proof (induction n arbitrary: acc s)
  case 0
  then show ?case by simp
next
  case (Suc n)
  from Suc.prems(1) obtain finals s1 where
    b: "inpainting_batch env config s = (Inr finals, s1)" and
    r: "batch_loop (inpainting_batch env config) n (acc @ finals) s1 = (Inr images, s')"
    by (auto split: sum.splits prod.splits)
  from inpainting_batch_Inr [OF b] Suc.prems(2) obtain ri rm generated where
    ok: "item_result_ok env config (ri, rm, generated, finals)" and
    mc1: "model_config s1 = Some mc" and
    c1: "calls s1 = calls s @ item_calls config (generator mc) (ri, rm, generated, finals)"
    by auto
  from Suc.IH [OF r mc1] obtain items where
    it: "length items = n" "list_all (item_result_ok env config) items"
      "images = (acc @ finals) @ concat (map item_finals items)"
      "model_config s' = Some mc"
      "calls s' = calls s1 @ concat (map (item_calls config (generator mc)) items)"
    by blast
  let ?items = "(ri, rm, generated, finals) # items"
  have "length ?items = Suc n" using it by simp
  moreover have "list_all (item_result_ok env config) ?items" using it ok by simp
  moreover have "images = acc @ concat (map item_finals ?items)"
    using it by (simp add: item_finals_def)
  moreover have "calls s' = calls s @ concat (map (item_calls config (generator mc)) ?items)"
    using it c1 by simp
  ultimately show ?case using it(4) by blast
qed


lemma new_calls_append: "calls s' = calls s @ new \<Longrightarrow> new_calls s s' = new"
  by (simp add: new_calls_def)

lemma postprocess_all_calls:
  "postprocess_all env config generated s = (r, s') \<Longrightarrow>
     \<exists>k\<le>length generated.
       calls s' = calls s @
         map (\<lambda>inpainted.
                PostprocessOutputs (input_image config) (mask_image config) inpainted
                  (preprocess_type config) (postprocess_type config) (blending_type config))
           (take k generated)
       \<and> (generated \<noteq> [] \<longrightarrow> 0 < k)
       \<and> ((\<exists>finals. r = Inr finals) \<longrightarrow> k = length generated)
       \<and> model_config s' = model_config s"
proof (induction generated arbitrary: s r s')
  case Nil
  then show ?case by auto
next
  case (Cons x xs)
  let ?c = "PostprocessOutputs (input_image config) (mask_image config) x
              (preprocess_type config) (postprocess_type config) (blending_type config)"
  show ?case
  proof (cases "postprocess_outputs env (input_image config) (mask_image config) x
          (preprocess_type config) (postprocess_type config) (blending_type config)")
    case (Inl e)
    with Cons.prems have "s' = logged ?c s" and rl: "r = Inl e" by (simp_all add: Let_def)
    then have "calls s' = calls s @ map (\<lambda>inpainted.
                PostprocessOutputs (input_image config) (mask_image config) inpainted
                  (preprocess_type config) (postprocess_type config) (blending_type config))
           (take 1 (x # xs)) \<and> model_config s' = model_config s"
      by (simp add: logged_def)
    with rl show ?thesis by (intro exI [of _ 1]) simp
  next
    case (Inr final)
    obtain r2 s2 where r: "postprocess_all env config xs (logged ?c s) = (r2, s2)"
      by (cases "postprocess_all env config xs (logged ?c s)")
    with Cons.prems Inr have s2: "s' = s2"
      and rr: "(\<exists>finals. r = Inr finals) \<longrightarrow> (\<exists>finals. r2 = Inr finals)"
      by (auto simp: Let_def split: sum.splits)
    from Cons.IH [OF r] obtain k where k: "k \<le> length xs"
      "calls s2 = calls (logged ?c s) @
         map (\<lambda>inpainted.
                PostprocessOutputs (input_image config) (mask_image config) inpainted
                  (preprocess_type config) (postprocess_type config) (blending_type config))
           (take k xs)"
      "(\<exists>finals. r2 = Inr finals) \<longrightarrow> k = length xs"
      "model_config s2 = model_config (logged ?c s)"
      by blast
    then have "calls s' = calls s @ map (\<lambda>inpainted.
                PostprocessOutputs (input_image config) (mask_image config) inpainted
                  (preprocess_type config) (postprocess_type config) (blending_type config))
           (take (Suc k) (x # xs)) \<and> model_config s' = model_config s"
      using s2 by (simp add: logged_def)
    with k(1) k(3) rr show ?thesis by (intro exI [of _ "Suc k"]) simp
  qed
qed

lemma run_pipe_calls:
  "run_pipe env args_of s = (r, s') \<Longrightarrow>
     model_config s' = model_config s
     \<and> (calls s' = calls s \<and> (\<exists>e. r = Inl e)
        \<or> (\<exists>g. calls s' = calls s @ [PipeCall (args_of g) r]))"
  by (auto simp: run_pipe_def Let_def split: option.splits prod.splits)

lemma inpainting_batch_calls:
  assumes "inpainting_batch env config s = (r, s')"
  shows "\<exists>new. calls s' = calls s @ new \<and> new \<noteq> [] \<and> model_config s' = model_config s
           \<and> inpainting_log_ok env config r new"
proof -
  let ?pre = "PreprocessInputs (input_image config) (mask_image config)
                 (preprocess_type config) (width config) (height config)"
  let ?post = "\<lambda>inpainted.
                PostprocessOutputs (input_image config) (mask_image config) inpainted
                  (preprocess_type config) (postprocess_type config) (blending_type config)"
  let ?s1 = "logged ?pre s"
  have only_pre: "inpainting_log_ok env config r [?pre]"
    by (simp add: inpainting_log_ok_def)
  show ?thesis
  proof (cases "preprocess_inputs env (input_image config) (mask_image config)
       (preprocess_type config) (width config) (height config)")
    case (Inl e)
    with assms have "s' = ?s1" by (simp add: inpainting_batch_def Let_def)
    then have "calls s' = calls s @ [?pre] \<and> model_config s' = model_config s"
      by (simp add: logged_def)
    with only_pre show ?thesis by blast
  next
    case (Inr returned)
    show ?thesis
    proof (cases "unpack2 returned")
      case (Inl e)
      with assms Inr have "s' = ?s1" by (simp add: inpainting_batch_def Let_def)
      then have "calls s' = calls s @ [?pre] \<and> model_config s' = model_config s"
        by (simp add: logged_def)
      with only_pre show ?thesis by blast
    next
      case un: (Inr pair)
      obtain ri rm where pair: "pair = (ri, rm)" by (cases pair)
      with un have ret: "returned = [ri, rm]" by (simp add: unpack2_Inr)
      let ?args = "InpaintArgs (sampling config) ri rm (height config) (width config)"
      obtain r2 s2 where rp: "run_pipe env ?args ?s1 = (r2, s2)"
        by (cases "run_pipe env ?args ?s1")
      from run_pipe_calls [OF rp] have mc2: "model_config s2 = model_config s"
        and alt: "calls s2 = calls ?s1 \<and> (\<exists>e. r2 = Inl e)
            \<or> (\<exists>g. calls s2 = calls ?s1 @ [PipeCall (?args g) r2])"
        by (simp_all add: logged_def)
      show ?thesis
      proof (cases r2)
        case (Inl e)
        with assms Inr un pair rp have rs: "r = Inl e" "s' = s2"
          by (simp_all add: inpainting_batch_def Let_def)
        from alt show ?thesis
        proof
          assume "calls s2 = calls ?s1 \<and> (\<exists>e. r2 = Inl e)"
          then have "calls s' = calls s @ [?pre]" using rs by (simp add: logged_def)
          with only_pre mc2 rs show ?thesis by blast
        next
          assume "\<exists>g. calls s2 = calls ?s1 @ [PipeCall (?args g) r2]"
          then obtain g where "calls s2 = calls ?s1 @ [PipeCall (?args g) r2]" by blast
          then have c: "calls s' = calls s @ [?pre, PipeCall (?args g) (Inl e)]"
            using rs Inl by (simp add: logged_def)
          have "inpainting_log_ok env config r [?pre, PipeCall (?args g) (Inl e)]"
            using rs Inr ret by (auto simp: inpainting_log_ok_def)
          with c mc2 rs show ?thesis by blast
        qed
      next
        case gen: (Inr generated)
        with assms Inr un pair rp have pp: "postprocess_all env config generated s2 = (r, s')"
          by (simp add: inpainting_batch_def Let_def)
        from alt gen obtain g where c2: "calls s2 = calls ?s1 @ [PipeCall (?args g) (Inr generated)]"
          by auto
        from postprocess_all_calls [OF pp] obtain k where k: "k \<le> length generated"
          "calls s' = calls s2 @ map ?post (take k generated)"
          "generated \<noteq> [] \<longrightarrow> 0 < k" "model_config s' = model_config s2"
          "(\<exists>finals. r = Inr finals) \<longrightarrow> k = length generated"
          by blast
        let ?new = "[?pre, PipeCall (?args g) (Inr generated)] @ map ?post (take k generated)"
        have c: "calls s' = calls s @ ?new" using k(2) c2 by (simp add: logged_def)
        have hd_in: "x \<in> set (take k (x # more))" if "0 < k" for x more
          using that by (cases k) simp_all
        have "inpainting_log_ok env config r ?new"
          unfolding inpainting_log_ok_def
        proof (intro conjI allI impI)
          fix a e assume "PipeCall a (Inl e) \<in> set ?new"
          then have False by auto
          then show "r = Inl e" "last ?new = PipeCall a (Inl e)" by blast+
        next
          fix a x more assume "PipeCall a (Inr (x # more)) \<in> set ?new"
          then have "generated = x # more" by auto
          with k(3) hd_in have "x \<in> set (take k generated)" by simp
          then show "?post x \<in> set ?new" by simp
        next
          fix a generated' x
          assume "\<exists>images. r = Inr images" "PipeCall a (Inr generated') \<in> set ?new"
            "x \<in> set generated'"
          with k(5) have "x \<in> set (take k generated)" by auto
          then show "?post x \<in> set ?new" by simp
        next
          fix a r' assume "PipeCall a r' \<in> set ?new"
          then have "a = ?args g" by auto
          with Inr ret show "\<exists>region_image region_mask g.
             preprocess_inputs env (input_image config) (mask_image config)
               (preprocess_type config) (width config) (height config)
               = Inr [region_image, region_mask]
             \<and> a = InpaintArgs (sampling config) region_image region_mask (height config)
                 (width config) g"
            by blast
        next
          fix i m x pre post bl
          assume "PostprocessOutputs i m x pre post bl \<in> set ?new"
          then have eq: "i = input_image config \<and> m = mask_image config
            \<and> pre = preprocess_type config \<and> post = postprocess_type config
            \<and> bl = blending_type config" and "x \<in> set (take k generated)"
            by auto
          then have "x \<in> set generated" by (meson in_set_takeD)
          then have ex: "\<exists>a generated. PipeCall a (Inr generated) \<in> set ?new \<and> x \<in> set generated"
            by auto
          from eq show "i = input_image config" "m = mask_image config"
            "pre = preprocess_type config" "post = postprocess_type config"
            "bl = blending_type config" by blast+
          from ex show "\<exists>a generated. PipeCall a (Inr generated) \<in> set ?new \<and> x \<in> set generated" .
        qed
        with c k(4) mc2 show ?thesis by (intro exI [of _ ?new]) simp
      qed
    qed
  qed
qed


lemma inpainting_log_ok_Nil: "inpainting_log_ok env config r []"
  by (simp add: inpainting_log_ok_def)

lemma inpainting_log_ok_append:
  assumes "inpainting_log_ok env config (Inr done) new1"
    and "inpainting_log_ok env config r new2"
  shows "inpainting_log_ok env config r (new1 @ new2)"
  unfolding inpainting_log_ok_def
proof (intro conjI allI impI)
  fix a e assume m: "PipeCall a (Inl e) \<in> set (new1 @ new2)"
  have "PipeCall a (Inl e) \<notin> set new1"
    using assms(1) by (auto simp: inpainting_log_ok_def)
  with m have in2: "PipeCall a (Inl e) \<in> set new2" by simp
  then have "new2 \<noteq> []" by auto
  moreover from in2 assms(2) have "r = Inl e \<and> last new2 = PipeCall a (Inl e)"
    by (simp add: inpainting_log_ok_def)
  ultimately show "r = Inl e" "last (new1 @ new2) = PipeCall a (Inl e)" by simp_all
next
  fix a x more assume "PipeCall a (Inr (x # more)) \<in> set (new1 @ new2)"
  with assms show "PostprocessOutputs (input_image config) (mask_image config) x
          (preprocess_type config) (postprocess_type config) (blending_type config)
          \<in> set (new1 @ new2)"
    unfolding inpainting_log_ok_def by (metis Un_iff set_append)
next
  fix a generated x
  assume ok: "\<exists>images. r = Inr images"
    and p: "PipeCall a (Inr generated) \<in> set (new1 @ new2)" and x: "x \<in> set generated"
  from p have "PipeCall a (Inr generated) \<in> set new1 \<or> PipeCall a (Inr generated) \<in> set new2"
    by simp
  then show "PostprocessOutputs (input_image config) (mask_image config) x
          (preprocess_type config) (postprocess_type config) (blending_type config)
          \<in> set (new1 @ new2)"
  proof
    assume "PipeCall a (Inr generated) \<in> set new1"
    with assms(1) x have "PostprocessOutputs (input_image config) (mask_image config) x
          (preprocess_type config) (postprocess_type config) (blending_type config)
          \<in> set new1"
      unfolding inpainting_log_ok_def by blast
    then show ?thesis by simp
  next
    assume "PipeCall a (Inr generated) \<in> set new2"
    with assms(2) x ok have "PostprocessOutputs (input_image config) (mask_image config) x
          (preprocess_type config) (postprocess_type config) (blending_type config)
          \<in> set new2"
      unfolding inpainting_log_ok_def by blast
    then show ?thesis by simp
  qed
next
  fix a r' assume "PipeCall a r' \<in> set (new1 @ new2)"
  with assms show "\<exists>region_image region_mask g.
           preprocess_inputs env (input_image config) (mask_image config)
             (preprocess_type config) (width config) (height config)
             = Inr [region_image, region_mask]
         \<and> a = InpaintArgs (sampling config) region_image region_mask (height config)
                 (width config) g"
    unfolding inpainting_log_ok_def by (metis Un_iff set_append)
next
  fix i m x pre post bl
  assume p: "PostprocessOutputs i m x pre post bl \<in> set (new1 @ new2)"
  then have "PostprocessOutputs i m x pre post bl \<in> set new1
    \<or> PostprocessOutputs i m x pre post bl \<in> set new2" by simp
  then have "(i = input_image config \<and> m = mask_image config \<and> pre = preprocess_type config
        \<and> post = postprocess_type config \<and> bl = blending_type config)
        \<and> (\<exists>a generated. PipeCall a (Inr generated) \<in> set (new1 @ new2) \<and> x \<in> set generated)"
  proof
    assume "PostprocessOutputs i m x pre post bl \<in> set new1"
    with assms(1) show ?thesis unfolding inpainting_log_ok_def
      by (metis Un_iff set_append)
  next
    assume "PostprocessOutputs i m x pre post bl \<in> set new2"
    with assms(2) show ?thesis unfolding inpainting_log_ok_def
      by (metis Un_iff set_append)
  qed
  then show "i = input_image config" "m = mask_image config"
    "pre = preprocess_type config" "post = postprocess_type config"
    "bl = blending_type config"
    "\<exists>a generated. PipeCall a (Inr generated) \<in> set (new1 @ new2) \<and> x \<in> set generated"
    by blast+
qed

lemma inpainting_log_ok_after_load:
  assumes "list_all is_load_call new0" and "inpainting_log_ok env config r new"
  shows "inpainting_log_ok env config r (new0 @ new)"
proof -
  have "inpainting_log_ok env config (Inr []) new0"
    using assms(1) unfolding inpainting_log_ok_def list_all_iff by fastforce
  then show ?thesis using assms(2) by (rule inpainting_log_ok_append)
qed

lemma inpainting_log_ok_before_save:
  assumes "inpainting_log_ok env config (Inr images) new"
  shows "inpainting_log_ok env config r (new @ [SaveImages saved d])"
proof -
  have "inpainting_log_ok env config r [SaveImages saved d]"
    by (simp add: inpainting_log_ok_def)
  with assms show ?thesis by (simp add: inpainting_log_ok_append)
qed

lemma batch_loop_calls:
  "batch_loop (inpainting_batch env config) n acc s = (r, s') \<Longrightarrow>
     \<exists>new. calls s' = calls s @ new \<and> model_config s' = model_config s
       \<and> inpainting_log_ok env config r new"
proof (induction n arbitrary: acc s)
  case 0
  then show ?case by (simp add: inpainting_log_ok_Nil)
next
  case (Suc n)
  obtain r1 s1 where b: "inpainting_batch env config s = (r1, s1)"
    by (cases "inpainting_batch env config s")
  from inpainting_batch_calls [OF b] obtain new1 where n1:
    "calls s1 = calls s @ new1" "model_config s1 = model_config s"
    "inpainting_log_ok env config r1 new1"
    by blast
  show ?case
  proof (cases r1)
    case (Inl e)
    with Suc.prems b have "r = r1" "s' = s1" by simp_all
    with n1 show ?thesis by blast
  next
    case (Inr finals)
    with Suc.prems b have
      "batch_loop (inpainting_batch env config) n (acc @ finals) s1 = (r, s')"
      by simp
    from Suc.IH [OF this] obtain new2 where n2:
      "calls s' = calls s1 @ new2" "model_config s' = model_config s1"
      "inpainting_log_ok env config r new2"
      by blast
    from n1(3) Inr n2(3) have "inpainting_log_ok env config r (new1 @ new2)"
      by (simp add: inpainting_log_ok_append)
    with n1 n2 show ?thesis by (intro exI [of _ "new1 @ new2"]) simp
  qed
qed

lemma load_pipeline_calls:
  "load_pipeline env hf_id m_path dev s = (r, s0) \<Longrightarrow>
     \<exists>new0. calls s0 = calls s @ new0 \<and> list_all is_load_call new0"
  by (auto simp: load_pipeline_def Let_def logged_def
      split: if_splits option.splits sum.splits prod.splits)

lemma load_model_hard_set_calls:
  "load_model_hard_set env s = (r, s0) \<Longrightarrow>
     \<exists>new0. calls s0 = calls s @ new0 \<and> list_all is_load_call new0"
  by (auto simp: load_model_hard_set_def dest: load_pipeline_calls
      split: if_splits option.splits)

lemma generate_images_inpainting_calls:
  assumes "generate_images_inpainting env config output_dir s = (r, s')"
  shows "\<exists>new. calls s' = calls s @ new \<and> inpainting_log_ok env config r new"
proof -
  obtain r0 s0 where l: "load_model_hard_set env s = (r0, s0)"
    by (cases "load_model_hard_set env s")
  from load_model_hard_set_calls [OF l] obtain new0 where n0:
    "calls s0 = calls s @ new0" "list_all is_load_call new0"
    by blast
  show ?thesis
  proof (cases r0)
    case (Inl e)
    with assms l have "s' = s0" by (simp add: generate_images_inpainting_def)
    moreover have "inpainting_log_ok env config r (new0 @ [])"
      using n0(2) inpainting_log_ok_Nil by (rule inpainting_log_ok_after_load)
    ultimately show ?thesis using n0(1) by auto
  next
    case (Inr u)
    obtain r1 s1 where b:
      "batch_loop (inpainting_batch env config) (nat (num_batches config)) [] s0 = (r1, s1)"
      by (cases "batch_loop (inpainting_batch env config) (nat (num_batches config)) [] s0")
    from batch_loop_calls [OF b] obtain new1 where n1:
      "calls s1 = calls s0 @ new1" "inpainting_log_ok env config r1 new1"
      by blast
    show ?thesis
    proof (cases r1)
      case (Inl e)
      with assms l Inr b have "r = r1" "s' = s1"
        by (simp_all add: generate_images_inpainting_def)
      moreover have "inpainting_log_ok env config r1 (new0 @ new1)"
        using n0(2) n1(2) by (rule inpainting_log_ok_after_load)
      ultimately show ?thesis using n0(1) n1(1) by (intro exI [of _ "new0 @ new1"]) simp
    next
      case images: (Inr images)
      with assms l Inr b have sv: "save_if_requested env images output_dir s1 = (r, s')"
        by (simp add: generate_images_inpainting_def)
      show ?thesis
      proof (cases output_dir)
        case None
        with sv have "r = r1" "s' = s1" using images by (simp_all add: save_if_requested_def)
        moreover have "inpainting_log_ok env config r1 (new0 @ new1)"
          using n0(2) n1(2) by (rule inpainting_log_ok_after_load)
        ultimately show ?thesis using n0(1) n1(1) by (intro exI [of _ "new0 @ new1"]) simp
      next
        case (Some d)
        with sv have "calls s' = calls s1 @ [SaveImages images d]"
          by (auto simp: save_if_requested_def logged_def split: option.splits)
        then have c: "calls s' = calls s @ new0 @ (new1 @ [SaveImages images d])"
          using n0(1) n1(1) by simp
        have "inpainting_log_ok env config r (new1 @ [SaveImages images d])"
          using n1(2) images by (simp add: inpainting_log_ok_before_save)
        with n0(2) have "inpainting_log_ok env config r (new0 @ (new1 @ [SaveImages images d]))"
          by (rule inpainting_log_ok_after_load)
        with c show ?thesis by blast
      qed
    qed
  qed
qed

lemma load_pipeline_Inr_config:
  "load_pipeline env hf_id m_path dev s = (Inr u, s0) \<Longrightarrow>
     \<exists>mc. model_config s0 = Some mc"
  by (auto simp: load_pipeline_def Let_def logged_def
      split: if_splits option.splits sum.splits prod.splits)

lemma load_model_hard_set_Inr_config:
  "load_model_hard_set env s = (Inr u, s0) \<Longrightarrow> \<exists>mc. model_config s0 = Some mc"
  by (auto simp: load_model_hard_set_def dest: load_pipeline_Inr_config
      split: if_splits option.splits)


subsection \<open>Four runs in the small world\<close>

lemmas demo_defs =
  generate_images_inpainting_def load_model_hard_set_def load_pipeline_def
  demo_object_def demo_model_config_def demo_input_def demo_env_def inpainting_batch_def
  run_pipe_def logged_def save_if_requested_def numeral_3_eq_3 Let_def

lemma demo_run_ok:
  "generate_images_inpainting demo_env demo_input None (demo_object (Some 5)) =
     (Inr [(105, 512, 512), (106, 512, 512), (107, 512, 512)],
      \<lparr>pipe = Some 8, model_config = Some demo_model_config,
       calls =
         [PreprocessInputs (1, 512, 512) (2, 512, 512) PreProcess_CROP_AND_RESIZE 256 256,
          PipeCall (InpaintArgs () (1, 256, 256) (2, 256, 256) 256 256 ())
            (Inr [(5, 256, 256)]),
          PostprocessOutputs (1, 512, 512) (2, 512, 512) (5, 256, 256)
            PreProcess_CROP_AND_RESIZE PostProcess_DIRECT_REPLACE Blending_NONE,
          PreprocessInputs (1, 512, 512) (2, 512, 512) PreProcess_CROP_AND_RESIZE 256 256,
          PipeCall (InpaintArgs () (1, 256, 256) (2, 256, 256) 256 256 ())
            (Inr [(6, 256, 256)]),
          PostprocessOutputs (1, 512, 512) (2, 512, 512) (6, 256, 256)
            PreProcess_CROP_AND_RESIZE PostProcess_DIRECT_REPLACE Blending_NONE,
          PreprocessInputs (1, 512, 512) (2, 512, 512) PreProcess_CROP_AND_RESIZE 256 256,
          PipeCall (InpaintArgs () (1, 256, 256) (2, 256, 256) 256 256 ())
            (Inr [(7, 256, 256)]),
          PostprocessOutputs (1, 512, 512) (2, 512, 512) (7, 256, 256)
            PreProcess_CROP_AND_RESIZE PostProcess_DIRECT_REPLACE Blending_NONE]\<rparr>)"
  by (simp add: demo_defs)

lemma demo_run_failing:
  "generate_images_inpainting demo_env demo_input (Some [''out'']) (demo_object (Some 0)) =
     (Inl (CollaboratorError ''generation failed''),
      \<lparr>pipe = Some 2, model_config = Some demo_model_config,
       calls =
         [PreprocessInputs (1, 512, 512) (2, 512, 512) PreProcess_CROP_AND_RESIZE 256 256,
          PipeCall (InpaintArgs () (1, 256, 256) (2, 256, 256) 256 256 ())
            (Inr [(0, 256, 256)]),
          PostprocessOutputs (1, 512, 512) (2, 512, 512) (0, 256, 256)
            PreProcess_CROP_AND_RESIZE PostProcess_DIRECT_REPLACE Blending_NONE,
          PreprocessInputs (1, 512, 512) (2, 512, 512) PreProcess_CROP_AND_RESIZE 256 256,
          PipeCall (InpaintArgs () (1, 256, 256) (2, 256, 256) 256 256 ())
            (Inl (CollaboratorError ''generation failed''))]\<rparr>)"
  by (simp add: demo_defs)

lemma demo_run_triple:
  "generate_images_inpainting demo_env_triple demo_input None (demo_object (Some 5)) =
     (Inl (ValueError ''too many values to unpack (expected 2)''),
      \<lparr>pipe = Some 5, model_config = Some demo_model_config,
       calls =
         [PreprocessInputs (1, 512, 512) (2, 512, 512) PreProcess_CROP_AND_RESIZE
            256 256]\<rparr>)"
  by (simp add: demo_defs demo_env_triple_def)

lemma demo_run_misshapen:
  "generate_images_inpainting demo_env_misshapen (demo_input\<lparr>num_batches := 1\<rparr>) None
     (demo_object (Some 5)) =
     (Inr [(105, 512, 512)],
      \<lparr>pipe = Some 6, model_config = Some demo_model_config,
       calls =
         [PreprocessInputs (1, 512, 512) (2, 512, 512) PreProcess_CROP_AND_RESIZE 256 256,
          PipeCall (InpaintArgs () (1, 256, 256) (2, 256, 256) 256 256 ())
            (Inr [(5, 1, 1)]),
          PostprocessOutputs (1, 512, 512) (2, 512, 512) (5, 1, 1)
            PreProcess_CROP_AND_RESIZE PostProcess_DIRECT_REPLACE Blending_NONE]\<rparr>)"
  by (simp add: demo_defs demo_env_misshapen_def)

subsection \<open>The policy enumerations\<close>

text \<open>
  Claim C3. The three enumerations have exactly the stated members and integers:
  pre-processing NONE = 1, RESIZE = 2, CROP_AND_RESIZE = 3; post-processing NONE = 1,
  DIRECT_REPLACE = 2, BLEND = 3; blending NONE = 1, POISSON = 2, GAUSSIAN = 3,
  LINEAR = 4, SMOOTH = 5, SMOOTHER = 6 (the source calls the last five
  \<^verbatim>\<open>POISSON_BLENDING\<close>, ..., \<^verbatim>\<open>SMOOTHER_BLENDING\<close>). The member lists are
  complete, and the lookup by value fails exactly outside 1..3, 1..3 and 1..6.
\<close>

theorem policy_enumeration_values:
  "map (\<lambda>m. (m, pre_process_value m)) pre_process_members =
     [(PreProcess_NONE, 1), (PreProcess_RESIZE, 2), (PreProcess_CROP_AND_RESIZE, 3)]
   \<and> map (\<lambda>m. (m, post_process_value m)) post_process_members =
     [(PostProcess_NONE, 1), (PostProcess_DIRECT_REPLACE, 2), (PostProcess_BLEND, 3)]
   \<and> map (\<lambda>m. (m, blending_value m)) blending_members =
     [(Blending_NONE, 1), (POISSON_BLENDING, 2), (GAUSSIAN_BLENDING, 3),
      (LINEAR_BLENDING, 4), (SMOOTH_BLENDING, 5), (SMOOTHER_BLENDING, 6)]
   \<and> set pre_process_members = UNIV
   \<and> set post_process_members = UNIV
   \<and> set blending_members = UNIV
   \<and> (pre_process_of_int n = None) = (n < 1 \<or> 3 < n)
   \<and> (post_process_of_int n = None) = (n < 1 \<or> 3 < n)
   \<and> (blending_of_int n = None) = (n < 1 \<or> 6 < n)"
proof -
  have a: "set pre_process_members = UNIV"
  proof -
    have "m \<in> set pre_process_members" for m
      by (cases m) (simp_all add: pre_process_members_def)
    then show ?thesis by blast
  qed
  have b: "set post_process_members = UNIV"
  proof -
    have "m \<in> set post_process_members" for m
      by (cases m) (simp_all add: post_process_members_def)
    then show ?thesis by blast
  qed
  have c: "set blending_members = UNIV"
  proof -
    have "m \<in> set blending_members" for m
      by (cases m) (simp_all add: blending_members_def)
    then show ?thesis by blast
  qed
  have d: "(pre_process_of_int n = None) = (n < 1 \<or> 3 < n)"
    by (simp add: pre_process_of_int_def pre_process_members_def) arith
  have e: "(post_process_of_int n = None) = (n < 1 \<or> 3 < n)"
    by (simp add: post_process_of_int_def post_process_members_def) arith
  have f: "(blending_of_int n = None) = (n < 1 \<or> 6 < n)"
    by (simp add: blending_of_int_def blending_members_def) arith
  show ?thesis
    using a b c d e f
    by (simp add: pre_process_members_def post_process_members_def blending_members_def)
qed

subsection \<open>No pipeline, no output directory\<close>

text \<open>
  Claim C8. While no pipeline is loaded, \<^verbatim>\<open>generate_images\<close>,
  \<^verbatim>\<open>load_textual_inversion\<close>, \<^verbatim>\<open>unload_textual_inversion\<close> and
  \<^verbatim>\<open>unload_all_textual_inversion\<close> raise \<^verbatim>\<open>ValueError("Model not loaded.")\<close> and
  leave the object as it was: no attribute changed, no call logged.
\<close>

theorem not_loaded_raises_first:
  assumes "pipe s = None"
  shows "generate_images env config output_dir s = (Inl (ValueError ''Model not loaded.''), s)
    \<and> load_textual_inversion env hf_id file_path token s =
        (Inl (ValueError ''Model not loaded.''), s)
    \<and> unload_textual_inversion env tokens s = (Inl (ValueError ''Model not loaded.''), s)
    \<and> unload_all_textual_inversion env s = (Inl (ValueError ''Model not loaded.''), s)"
  using assms
  by (simp add: generate_images_def check_model_ready_def load_textual_inversion_def
      unload_textual_inversion_def unload_all_textual_inversion_def unload_with_def)

theorem not_loaded_raises_first_witness:
  "pipe (demo_object None) = None
   \<and> generate_images demo_env demo_input (Some [''out'']) (demo_object None) =
       (Inl (ValueError ''Model not loaded.''), demo_object None)
   \<and> load_textual_inversion demo_env (Some (Single ''sd-concepts/cat-toy'')) None None
       (demo_object None) = (Inl (ValueError ''Model not loaded.''), demo_object None)
   \<and> unload_textual_inversion demo_env (Single ''<cat-toy>'') (demo_object None) =
       (Inl (ValueError ''Model not loaded.''), demo_object None)
   \<and> unload_all_textual_inversion demo_env (demo_object None) =
       (Inl (ValueError ''Model not loaded.''), demo_object None)"
proof -
  have h: "pipe (demo_object None) = None" by (simp add: demo_object_def)
  from not_loaded_raises_first [OF h] h show ?thesis by simp
qed

text \<open>
  Claim C9. \<^verbatim>\<open>generate_images\<close> called without an output directory raises for every
  object and every configuration: \<^verbatim>\<open>ValueError\<close> when no pipeline is loaded, and
  with a loaded pipeline the \<^verbatim>\<open>AttributeError\<close> of \<^verbatim>\<open>None.mkdir\<close>. Nothing is
  generated in either case.
\<close>

theorem generate_images_without_output_dir:
  "generate_images env config None s =
     (Inl (if pipe s = None then ValueError ''Model not loaded.''
           else AttributeError ''mkdir''), s)"
  by (simp add: generate_images_def check_model_ready_def)

subsection \<open>Loading the same model again\<close>

text \<open>
  Claim C10. When a pipeline is loaded and the request names the model the configuration
  already records (the same \<^verbatim>\<open>hf_model_id\<close> and no path, or the same
  \<^verbatim>\<open>model_path\<close> and no identifier), \<^verbatim>\<open>_load_pipeline\<close> returns at once:
  the object is unchanged and nothing is loaded. \<^verbatim>\<open>update_pipeline\<close> with such a
  configuration then only stores the configuration: the pipeline stays and no call is
  made.
\<close>

theorem load_pipeline_same_model:
  assumes "pipe s \<noteq> None" and "model_config s = Some mc"
    and "(hf_id = Some h \<and> m_path = None \<and> hf_model_id mc = Some h)
       \<or> (hf_id = None \<and> m_path = Some q \<and> model_path mc = Some q)"
  shows "load_pipeline env hf_id m_path dev s = (Inr (), s)
    \<and> update_pipeline env (new_config\<lparr>hf_model_id := hf_id, model_path := m_path\<rparr>) s =
        (Inr (), s\<lparr>model_config :=
           Some (new_config\<lparr>hf_model_id := hf_id, model_path := m_path\<rparr>)\<rparr>)
    \<and> pipe (snd (update_pipeline env
         (new_config\<lparr>hf_model_id := hf_id, model_path := m_path\<rparr>) s)) = pipe s
    \<and> calls (snd (update_pipeline env
         (new_config\<lparr>hf_model_id := hf_id, model_path := m_path\<rparr>) s)) = calls s"
proof -
  have l: "load_pipeline env hf_id m_path dev s = (Inr (), s)" for dev
    using assms by (auto simp: load_pipeline_def)
  show ?thesis
    using l by (simp add: update_pipeline_def)
qed

theorem load_pipeline_same_model_witness:
  "load_pipeline demo_env (Some ''inpainting-model'') None (Some ''cpu'')
      (demo_object (Some 5)) = (Inr (), demo_object (Some 5))
   \<and> update_pipeline demo_env (demo_model_config\<lparr>device := ''cpu''\<rparr>) (demo_object (Some 5)) =
       (Inr (), (demo_object (Some 5))
          \<lparr>model_config := Some (demo_model_config\<lparr>device := ''cpu''\<rparr>)\<rparr>)
   \<and> pipe (snd (update_pipeline demo_env (demo_model_config\<lparr>device := ''cpu''\<rparr>)
        (demo_object (Some 5)))) = Some 5
   \<and> calls (snd (update_pipeline demo_env (demo_model_config\<lparr>device := ''cpu''\<rparr>)
        (demo_object (Some 5)))) = []"
proof -
  have a: "pipe (demo_object (Some 5)) \<noteq> None"
    and b: "model_config (demo_object (Some 5)) = Some demo_model_config"
    by (simp_all add: demo_object_def)
  have c: "(Some ''inpainting-model'' = Some ''inpainting-model'' \<and> (None :: path option) = None
        \<and> hf_model_id demo_model_config = Some ''inpainting-model'')
      \<or> (Some ''inpainting-model'' = None \<and> (None :: path option) = Some []
        \<and> model_path demo_model_config = Some [])"
    by (simp add: demo_model_config_def)
  have d: "(demo_model_config\<lparr>device := ''cpu''\<rparr>)
      \<lparr>hf_model_id := Some ''inpainting-model'', model_path := None\<rparr>
      = demo_model_config\<lparr>device := ''cpu''\<rparr>"
    by (simp add: demo_model_config_def)
  from load_pipeline_same_model [OF a b c, of demo_env "Some ''cpu''"
      "demo_model_config\<lparr>device := ''cpu''\<rparr>"]
  show ?thesis unfolding d by (simp add: demo_object_def)
qed

text \<open>
  The guard in front of the early returns: a request that names both an identifier and a
  path raises, whatever the configuration records, and also changes nothing.
\<close>

lemma load_pipeline_both_given:
  "load_pipeline env (Some h) (Some q) dev s =
     (Inl (ValueError ''Only one of hf_model_id or model_path should be provided.''), s)"
  by (simp add: load_pipeline_def)

subsection \<open>The inpainting method, round by round\<close>

text \<open>
  Claim C1. A run of \<^verbatim>\<open>_generate_images_inpainting\<close> that returns has made, after
  loading the model, one round per batch, and each round is: \<^verbatim>\<open>preprocess_inputs\<close>
  on the image and the mask of the configuration with its pre-processing policy and
  target width and height; the pipeline call on the pair that came back; and
  \<^verbatim>\<open>postprocess_outputs\<close> on each generated image, in order, with the original image,
  the original mask and the configured policies. The result is the final images of the
  rounds, in the order of the rounds; with an output directory the images are saved
  last.
\<close>

theorem inpainting_items_in_order:
  assumes "generate_images_inpainting env config output_dir s = (Inr images, s')"
  shows "\<exists>mc items.
      model_config (snd (load_model_hard_set env s)) = Some mc
    \<and> length items = nat (num_batches config)
    \<and> list_all (item_result_ok env config) items
    \<and> images = concat (map item_finals items)
    \<and> calls s' = calls (snd (load_model_hard_set env s))
        @ concat (map (item_calls config (generator mc)) items)
        @ (case output_dir of None \<Rightarrow> [] | Some d \<Rightarrow> [SaveImages images d])"
proof -
  obtain r0 s0 where l: "load_model_hard_set env s = (r0, s0)"
    by (cases "load_model_hard_set env s")
  with assms obtain u where r0: "r0 = Inr u"
    by (cases r0) (simp_all add: generate_images_inpainting_def)
  from load_model_hard_set_Inr_config l r0 obtain mc where mc: "model_config s0 = Some mc"
    by blast
  from assms l r0 obtain imgs s1 where
    b: "batch_loop (inpainting_batch env config) (nat (num_batches config)) [] s0
          = (Inr imgs, s1)"
    and sv: "save_if_requested env imgs output_dir s1 = (Inr images, s')"
    by (auto simp: generate_images_inpainting_def split: sum.splits prod.splits)
  from batch_loop_inpainting_Inr [OF b mc] obtain items where it:
    "length items = nat (num_batches config)"
    "list_all (item_result_ok env config) items"
    "imgs = concat (map item_finals items)"
    "calls s1 = calls s0 @ concat (map (item_calls config (generator mc)) items)"
    by auto
  from sv have "images = imgs \<and> calls s' = calls s1
        @ (case output_dir of None \<Rightarrow> [] | Some d \<Rightarrow> [SaveImages images d])"
    by (auto simp: save_if_requested_def logged_def split: option.splits)
  with it mc l show ?thesis by auto
qed

theorem inpainting_items_in_order_witness:
  "fst (generate_images_inpainting demo_env demo_input None (demo_object (Some 5))) =
     Inr [(105, 512, 512), (106, 512, 512), (107, 512, 512)]
   \<and> (\<exists>mc items.
      model_config (snd (load_model_hard_set demo_env (demo_object (Some 5)))) = Some mc
    \<and> length items = nat (num_batches demo_input)
    \<and> list_all (item_result_ok demo_env demo_input) items
    \<and> [(105, 512, 512), (106, 512, 512), (107, 512, 512)] = concat (map item_finals items)
    \<and> calls (snd (generate_images_inpainting demo_env demo_input None (demo_object (Some 5))))
        = calls (snd (load_model_hard_set demo_env (demo_object (Some 5))))
        @ concat (map (item_calls demo_input (generator mc)) items)
        @ (case None of None \<Rightarrow> [] | Some d \<Rightarrow>
             [SaveImages [(105, 512, 512), (106, 512, 512), (107, 512, 512)] d]))"
proof -
  obtain s' where run:
    "generate_images_inpainting demo_env demo_input None (demo_object (Some 5)) =
       (Inr [(105, 512, 512), (106, 512, 512), (107, 512, 512)], s')"
    using demo_run_ok by blast
  from inpainting_items_in_order [OF run] run show ?thesis by simp
qed

subsection \<open>A failing generation call\<close>

text \<open>
  Claim C2 says that a batch of three whose second generation call fails still returns
  the results of the first and the third. It does not: the exception leaves the loop.
  Here the second call raises; the method raises the same exception, returns no image,
  makes no third round and saves nothing.
\<close>

theorem batch_of_three_second_fails:
  "generate_images_inpainting demo_env demo_input (Some [''out'']) (demo_object (Some 0)) =
     (Inl (CollaboratorError ''generation failed''),
      \<lparr>pipe = Some 2, model_config = Some demo_model_config,
       calls =
         [PreprocessInputs (1, 512, 512) (2, 512, 512) PreProcess_CROP_AND_RESIZE 256 256,
          PipeCall (InpaintArgs () (1, 256, 256) (2, 256, 256) 256 256 ())
            (Inr [(0, 256, 256)]),
          PostprocessOutputs (1, 512, 512) (2, 512, 512) (0, 256, 256)
            PreProcess_CROP_AND_RESIZE PostProcess_DIRECT_REPLACE Blending_NONE,
          PreprocessInputs (1, 512, 512) (2, 512, 512) PreProcess_CROP_AND_RESIZE 256 256,
          PipeCall (InpaintArgs () (1, 256, 256) (2, 256, 256) 256 256 ())
            (Inl (CollaboratorError ''generation failed''))]\<rparr>)"
  by (rule demo_run_failing)

text \<open>
  Claim C2, amended. When a generation call of a run raises, the method raises that
  exception (so it returns no image of any round), and the failed call is the last call
  of the run: no later round is started and nothing is saved.
\<close>

theorem generation_failure_aborts_batch:
  assumes "generate_images_inpainting env config output_dir s = (outcome, s')"
    and "PipeCall args (Inl e) \<in> set (new_calls s s')"
  shows "outcome = Inl e \<and> last (calls s') = PipeCall args (Inl e)"
proof -
  from generate_images_inpainting_calls [OF assms(1)] obtain new where
    n: "calls s' = calls s @ new" "inpainting_log_ok env config outcome new"
    by blast
  then have nc: "new_calls s s' = new" by (simp add: new_calls_append)
  with assms(2) n(2) have "outcome = Inl e \<and> last new = PipeCall args (Inl e)"
    by (simp add: inpainting_log_ok_def)
  moreover from assms(2) nc have "new \<noteq> []" by auto
  ultimately show ?thesis using n(1) by simp
qed

theorem generation_failure_aborts_batch_witness:
  "PipeCall (InpaintArgs () (1, 256, 256) (2, 256, 256) 256 256 ())
       (Inl (CollaboratorError ''generation failed''))
     \<in> set (new_calls (demo_object (Some 0))
         (snd (generate_images_inpainting demo_env demo_input (Some [''out''])
            (demo_object (Some 0)))))
   \<and> fst (generate_images_inpainting demo_env demo_input (Some [''out''])
         (demo_object (Some 0))) = Inl (CollaboratorError ''generation failed'')
   \<and> last (calls (snd (generate_images_inpainting demo_env demo_input (Some [''out''])
         (demo_object (Some 0))))) =
       PipeCall (InpaintArgs () (1, 256, 256) (2, 256, 256) 256 256 ())
         (Inl (CollaboratorError ''generation failed''))"
proof -
  let ?run = "generate_images_inpainting demo_env demo_input (Some [''out''])
                (demo_object (Some 0))"
  have run: "?run = (fst ?run, snd ?run)" by simp
  have m: "PipeCall (InpaintArgs () (1, 256, 256) (2, 256, 256) 256 256 ())
       (Inl (CollaboratorError ''generation failed''))
     \<in> set (new_calls (demo_object (Some 0)) (snd ?run))"
    unfolding demo_run_failing by (simp add: new_calls_def demo_object_def)
  from generation_failure_aborts_batch [OF run m] m show ?thesis by simp
qed

subsection \<open>What reaches the post-processing\<close>

text \<open>
  Claim C4 says that the pre-processing returns a triple whose third component, a region
  mapping, is handed to the post-processing. The method unpacks exactly two values: with
  a \<^verbatim>\<open>preprocess_inputs\<close> that returns three, the first round raises
  \<^verbatim>\<open>ValueError\<close> and \<^verbatim>\<open>postprocess_outputs\<close> is never called.
\<close>

theorem triple_from_preprocess_is_rejected:
  "generate_images_inpainting demo_env_triple demo_input None (demo_object (Some 5)) =
     (Inl (ValueError ''too many values to unpack (expected 2)''),
      \<lparr>pipe = Some 5, model_config = Some demo_model_config,
       calls =
         [PreprocessInputs (1, 512, 512) (2, 512, 512) PreProcess_CROP_AND_RESIZE
            256 256]\<rparr>)"
  by (rule demo_run_triple)

text \<open>
  Claim C4, amended. The pre-processing returns a pair (region image, region mask), and
  the pair goes to the pipeline. No mapping value exists: every call of the
  post-processing receives the image and the mask of the configuration, an image the
  pipeline returned, and the three policies of the configuration, of which the
  pre-processing policy is the only thing that ties it to the pre-processing.
\<close>

theorem postprocess_receives_no_mapping:
  assumes "generate_images_inpainting env config output_dir s = (outcome, s')"
  shows "(\<forall>a r. PipeCall a r \<in> set (new_calls s s') \<longrightarrow>
        (\<exists>region_image region_mask g.
           preprocess_inputs env (input_image config) (mask_image config)
             (preprocess_type config) (width config) (height config)
             = Inr [region_image, region_mask]
         \<and> a = InpaintArgs (sampling config) region_image region_mask (height config)
                 (width config) g))
   \<and> (\<forall>i m x pre post bl.
        PostprocessOutputs i m x pre post bl \<in> set (new_calls s s') \<longrightarrow>
        i = input_image config \<and> m = mask_image config \<and> pre = preprocess_type config
        \<and> post = postprocess_type config \<and> bl = blending_type config
        \<and> (\<exists>a generated. PipeCall a (Inr generated) \<in> set (new_calls s s')
              \<and> x \<in> set generated))"
proof -
  from generate_images_inpainting_calls [OF assms] obtain new where
    n: "calls s' = calls s @ new" "inpainting_log_ok env config outcome new"
    by blast
  then have "new_calls s s' = new" by (simp add: new_calls_append)
  with n(2) show ?thesis unfolding inpainting_log_ok_def by blast
qed

theorem postprocess_receives_no_mapping_witness:
  "PipeCall (InpaintArgs () (1, 256, 256) (2, 256, 256) 256 256 ()) (Inr [(6, 256, 256)])
     \<in> set (new_calls (demo_object (Some 5))
         (snd (generate_images_inpainting demo_env demo_input None (demo_object (Some 5)))))
   \<and> preprocess_inputs demo_env (input_image demo_input) (mask_image demo_input)
       (preprocess_type demo_input) (width demo_input) (height demo_input)
       = Inr [(1, 256, 256), (2, 256, 256)]
   \<and> PostprocessOutputs (1, 512, 512) (2, 512, 512) (6, 256, 256)
       PreProcess_CROP_AND_RESIZE PostProcess_DIRECT_REPLACE Blending_NONE
     \<in> set (new_calls (demo_object (Some 5))
         (snd (generate_images_inpainting demo_env demo_input None (demo_object (Some 5)))))
   \<and> (1, 512, 512) = input_image demo_input \<and> (2, 512, 512) = mask_image demo_input
   \<and> PreProcess_CROP_AND_RESIZE = preprocess_type demo_input
   \<and> PostProcess_DIRECT_REPLACE = postprocess_type demo_input
   \<and> Blending_NONE = blending_type demo_input
   \<and> (\<exists>a generated. PipeCall a (Inr generated)
         \<in> set (new_calls (demo_object (Some 5))
             (snd (generate_images_inpainting demo_env demo_input None
                (demo_object (Some 5)))))
       \<and> (6, 256, 256) \<in> set generated)"
proof -
  let ?run = "generate_images_inpainting demo_env demo_input None (demo_object (Some 5))"
  let ?new = "new_calls (demo_object (Some 5)) (snd ?run)"
  have run: "?run = (fst ?run, snd ?run)" by simp
  have m1: "PipeCall (InpaintArgs () (1, 256, 256) (2, 256, 256) 256 256 ())
       (Inr [(6, 256, 256)]) \<in> set ?new"
    and m2: "PostprocessOutputs (1, 512, 512) (2, 512, 512) (6, 256, 256)
       PreProcess_CROP_AND_RESIZE PostProcess_DIRECT_REPLACE Blending_NONE \<in> set ?new"
    unfolding demo_run_ok by (simp_all add: new_calls_def demo_object_def)
  have pre: "preprocess_inputs demo_env (input_image demo_input) (mask_image demo_input)
       (preprocess_type demo_input) (width demo_input) (height demo_input)
       = Inr [(1, 256, 256), (2, 256, 256)]"
    by (simp add: demo_env_def demo_input_def)
  from postprocess_receives_no_mapping [OF run] m2
  have "(1, 512, 512) = input_image demo_input \<and> (2, 512, 512) = mask_image demo_input
   \<and> PreProcess_CROP_AND_RESIZE = preprocess_type demo_input
   \<and> PostProcess_DIRECT_REPLACE = postprocess_type demo_input
   \<and> Blending_NONE = blending_type demo_input
   \<and> (\<exists>a generated. PipeCall a (Inr generated) \<in> set ?new \<and> (6, 256, 256) \<in> set generated)"
    by blast
  with m1 m2 pre show ?thesis by blast
qed

subsection \<open>A generated image of the wrong size\<close>

text \<open>
  Claim C5 says that an image of the wrong size from the generation call raises a
  contract violation at once. The method has no such check and no such exception: here
  256 by 256 is requested, the pipeline returns a 1 by 1 image, the image is handed to
  \<^verbatim>\<open>postprocess_outputs\<close> as it is, and the method returns normally.
\<close>

theorem misshapen_output_is_not_rejected:
  "generate_images_inpainting demo_env_misshapen (demo_input\<lparr>num_batches := 1\<rparr>) None
     (demo_object (Some 5)) =
     (Inr [(105, 512, 512)],
      \<lparr>pipe = Some 6, model_config = Some demo_model_config,
       calls =
         [PreprocessInputs (1, 512, 512) (2, 512, 512) PreProcess_CROP_AND_RESIZE 256 256,
          PipeCall (InpaintArgs () (1, 256, 256) (2, 256, 256) 256 256 ())
            (Inr [(5, 1, 1)]),
          PostprocessOutputs (1, 512, 512) (2, 512, 512) (5, 1, 1)
            PreProcess_CROP_AND_RESIZE PostProcess_DIRECT_REPLACE Blending_NONE]\<rparr>)"
  by (rule demo_run_misshapen)

text \<open>
  Claim C5, amended. The method does not look at the size of what the generation call
  returns and neither crops nor pads it: the first image of every returned list is
  passed unchanged to \<^verbatim>\<open>postprocess_outputs\<close>, and so is every image of the list
  when the method returns. An exception can then only come from
  \<^verbatim>\<open>postprocess_outputs\<close> itself.
\<close>

theorem generated_images_are_postprocessed_unchecked:
  assumes "generate_images_inpainting env config output_dir s = (outcome, s')"
    and "PipeCall args (Inr generated) \<in> set (new_calls s s')"
    and "x \<in> set generated"
    and "x = hd generated \<or> (\<exists>images. outcome = Inr images)"
  shows "PostprocessOutputs (input_image config) (mask_image config) x
           (preprocess_type config) (postprocess_type config) (blending_type config)
         \<in> set (new_calls s s')"
proof -
  from generate_images_inpainting_calls [OF assms(1)] obtain new where
    n: "calls s' = calls s @ new" "inpainting_log_ok env config outcome new"
    by blast
  then have nc: "new_calls s s' = new" by (simp add: new_calls_append)
  from assms(4) show ?thesis
  proof
    assume "x = hd generated"
    with assms(3) obtain more where "generated = x # more" by (cases generated) auto
    with assms(2) nc n(2) show ?thesis unfolding inpainting_log_ok_def by blast
  next
    assume "\<exists>images. outcome = Inr images"
    with assms(2,3) nc n(2) show ?thesis unfolding inpainting_log_ok_def by blast
  qed
qed

theorem generated_images_are_postprocessed_unchecked_witness:
  "PipeCall (InpaintArgs () (1, 256, 256) (2, 256, 256) 256 256 ()) (Inr [(5, 1, 1)])
     \<in> set (new_calls (demo_object (Some 5))
         (snd (generate_images_inpainting demo_env_misshapen (demo_input\<lparr>num_batches := 1\<rparr>)
            None (demo_object (Some 5)))))
   \<and> PostprocessOutputs (input_image (demo_input\<lparr>num_batches := 1\<rparr>))
       (mask_image (demo_input\<lparr>num_batches := 1\<rparr>)) (5, 1, 1)
       (preprocess_type (demo_input\<lparr>num_batches := 1\<rparr>))
       (postprocess_type (demo_input\<lparr>num_batches := 1\<rparr>))
       (blending_type (demo_input\<lparr>num_batches := 1\<rparr>))
     \<in> set (new_calls (demo_object (Some 5))
         (snd (generate_images_inpainting demo_env_misshapen (demo_input\<lparr>num_batches := 1\<rparr>)
            None (demo_object (Some 5)))))"
proof -
  let ?run = "generate_images_inpainting demo_env_misshapen (demo_input\<lparr>num_batches := 1\<rparr>)
                None (demo_object (Some 5))"
  have run: "?run = (fst ?run, snd ?run)" by simp
  have m: "PipeCall (InpaintArgs () (1, 256, 256) (2, 256, 256) 256 256 ())
       (Inr [(5, 1, 1)]) \<in> set (new_calls (demo_object (Some 5)) (snd ?run))"
    unfolding demo_run_misshapen by (simp add: new_calls_def demo_object_def)
  have x: "(5, 1, 1) \<in> set [(5 :: nat, 1 :: int, 1 :: int)]" by simp
  have h: "(5, 1, 1) = hd [(5 :: nat, 1 :: int, 1 :: int)]
      \<or> (\<exists>images. fst ?run = Inr images)" by simp
  from generated_images_are_postprocessed_unchecked [OF run m x h] m show ?thesis by simp
qed

section \<open>Properties of the geometry engine and the compositor\<close>

lemma set_marked_pixels:
  "set (marked_pixels threshold mask_grid) =
     {(x, y). x < grid_width mask_grid \<and> y < grid_height mask_grid
              \<and> threshold < px mask_grid x y}"
  by (auto simp: marked_pixels_def)

lemma marked_pixels_empty:
  "marked_pixels threshold mask_grid = [] \<longleftrightarrow>
     (\<forall>x<grid_width mask_grid. \<forall>y<grid_height mask_grid. px mask_grid x y \<le> threshold)"
proof -
  have "marked_pixels threshold mask_grid = [] \<longleftrightarrow>
      set (marked_pixels threshold mask_grid) = {}"
    by simp
  also have "\<dots> \<longleftrightarrow>
      \<not> (\<exists>x y. x < grid_width mask_grid \<and> y < grid_height mask_grid
                 \<and> threshold < px mask_grid x y)"
    unfolding set_marked_pixels by auto
  also have "\<dots> \<longleftrightarrow>
      (\<forall>x<grid_width mask_grid. \<forall>y<grid_height mask_grid. px mask_grid x y \<le> threshold)"
    using linorder_not_less by blast
  finally show ?thesis .
qed

lemma compute_bounding_box_fails_iff:
  "isl (compute_bounding_box threshold mask_grid) \<longleftrightarrow>
     (\<forall>x<grid_width mask_grid. \<forall>y<grid_height mask_grid. px mask_grid x y \<le> threshold)"
  by (simp add: compute_bounding_box_def Let_def marked_pixels_empty)

text \<open>
  Claim C7. \<^verbatim>\<open>compute_bounding_box\<close> fails with the empty-region error on every mask
  none of whose pixels exceeds the threshold, and \<^verbatim>\<open>composite\<close> with DIRECT_REPLACE
  on such a mask fails with a geometry error instead of returning an image. An all-zero
  mask is such a mask for every threshold that is not negative.
\<close>

theorem empty_mask_is_an_error:
  assumes "\<forall>x<grid_width mask_grid. \<forall>y<grid_height mask_grid. px mask_grid x y \<le> threshold"
  shows "compute_bounding_box threshold mask_grid = Inl (GeometryError ''empty region'')
    \<and> (\<exists>msg. composite K mask_max threshold original_image mask_grid model_output mapping
          PostProcess_DIRECT_REPLACE blend_variant = Inl (GeometryError msg))"
proof -
  from assms have e: "marked_pixels threshold mask_grid = []"
    by (simp add: marked_pixels_empty)
  then have b: "compute_bounding_box threshold mask_grid = Inl (GeometryError ''empty region'')"
    by (simp add: compute_bounding_box_def)
  then have "\<exists>msg. composite K mask_max threshold original_image mask_grid model_output mapping
          PostProcess_DIRECT_REPLACE blend_variant = Inl (GeometryError msg)"
    by (simp add: composite_def)
  with b show ?thesis by blast
qed

theorem empty_mask_is_an_error_witness:
  "compute_bounding_box 0 demo_zero_mask = Inl (GeometryError ''empty region'')
   \<and> (\<exists>msg. composite demo_kernels 255 0 demo_original demo_zero_mask demo_output
         demo_mapping PostProcess_DIRECT_REPLACE Blending_NONE = Inl (GeometryError msg))"
proof -
  have h: "\<forall>x<grid_width demo_zero_mask. \<forall>y<grid_height demo_zero_mask.
             px demo_zero_mask x y \<le> 0"
    by (simp add: demo_zero_mask_def)
  from empty_mask_is_an_error [OF h] show ?thesis .
qed

text \<open>
  Claim C6. For BLEND with the LINEAR variant every pixel of the output is the convex
  combination \<open>w * patch + (1 - w) * original\<close> of the placed patch and the original,
  with the mask value divided by the largest mask value as the weight \<open>w\<close>: where the
  mask is 0 the pixel is the original's, where the mask is the largest value it is the
  patch's, and a mask value in between gives a weight between 0 and 1. The output has
  the dimensions of the original.
\<close>

theorem blend_linear_per_pixel:
  assumes "0 < mask_max"
    and "composite K mask_max threshold original_image original_mask model_output mapping
           PostProcess_BLEND LINEAR_BLENDING = Inr out"
    and "x < grid_width out" and "y < grid_height out"
  shows "grid_width out = grid_width original_image
    \<and> grid_height out = grid_height original_image
    \<and> px out x y =
        convex_mix (px original_mask x y / mask_max)
          (px (placed_patch K original_image mapping model_output) x y)
          (px original_image x y)
    \<and> (px original_mask x y = 0 \<longrightarrow> px out x y = px original_image x y)
    \<and> (px original_mask x y = mask_max \<longrightarrow>
          px out x y = px (placed_patch K original_image mapping model_output) x y)
    \<and> (0 \<le> px original_mask x y \<and> px original_mask x y \<le> mask_max \<longrightarrow>
          0 \<le> px original_mask x y / mask_max \<and> px original_mask x y / mask_max \<le> 1)"
proof -
  let ?placed = "placed_patch K original_image mapping model_output"
  from assms(2) have out:
    "out = convex_combination mask_max original_mask ?placed original_image"
    by (simp add: composite_def Let_def split: if_splits)
  have mix0: "convex_mix 0 p q = q" for p q :: pixel
    by (cases p, cases q) (simp add: convex_mix_def)
  have mix1: "convex_mix 1 p q = p" for p q :: pixel
    by (cases p, cases q) (simp add: convex_mix_def)
  have "px out x y =
      convex_mix (px original_mask x y / mask_max) (px ?placed x y) (px original_image x y)"
    using out by (simp add: convex_combination_def)
  moreover have "grid_width out = grid_width original_image"
    "grid_height out = grid_height original_image"
    using out by (simp_all add: convex_combination_def)
  moreover have "px original_mask x y = 0 \<longrightarrow> px out x y = px original_image x y"
    using out by (simp add: convex_combination_def mix0)
  moreover have "px original_mask x y = mask_max \<longrightarrow> px out x y = px ?placed x y"
    using out assms(1) by (simp add: convex_combination_def mix1)
  moreover have "0 \<le> px original_mask x y \<and> px original_mask x y \<le> mask_max \<longrightarrow>
          0 \<le> px original_mask x y / mask_max \<and> px original_mask x y / mask_max \<le> 1"
    using assms(1) by simp
  ultimately show ?thesis by blast
qed

theorem blend_linear_per_pixel_witness:
  "\<exists>out. composite demo_kernels 255 127 demo_original demo_mask demo_output demo_mapping
            PostProcess_BLEND LINEAR_BLENDING = Inr out
     \<and> grid_width out = 2 \<and> grid_height out = 1
     \<and> px demo_mask 0 0 = 0 \<and> px out 0 0 = (0, 0, 0)
     \<and> px demo_mask 1 0 = 255 \<and> px out 1 0 = (255, 255, 255)"
proof -
  have ne: "\<not> isl (compute_bounding_box 127 demo_mask)"
    unfolding compute_bounding_box_fails_iff
    by (auto simp: demo_mask_def intro!: exI [of _ 1])
  have bw: "box_within (source_box demo_mapping) demo_original"
    by (simp add: box_within_def demo_mapping_def demo_original_def)
  obtain out where c:
    "composite demo_kernels 255 127 demo_original demo_mask demo_output demo_mapping
       PostProcess_BLEND LINEAR_BLENDING = Inr out"
    using ne bw by (simp add: composite_def Let_def demo_mask_def demo_original_def)
  have w: "grid_width out = 2" "grid_height out = 1"
    using c ne bw
    by (auto simp: composite_def Let_def demo_mask_def demo_original_def
        convex_combination_def split: if_splits)
  have x0: "(0 :: nat) < grid_width out" and x1: "(1 :: nat) < grid_width out"
    and y0: "(0 :: nat) < grid_height out"
    using w by simp_all
  have pm: "(0 :: real) < 255" by simp
  have placed1: "px (placed_patch demo_kernels demo_original demo_mapping demo_output) 1 0
      = (255, 255, 255)"
    by (simp add: placed_patch_def demo_kernels_def demo_mapping_def demo_output_def
        demo_original_def Let_def)
  have m0: "px demo_mask 0 0 = 0" and m1: "px demo_mask 1 0 = 255"
    by (simp_all add: demo_mask_def)
  from blend_linear_per_pixel [OF pm c x0 y0]
  have "px demo_mask 0 0 = 0 \<longrightarrow> px out 0 0 = px demo_original 0 0" by blast
  with m0 have a: "px out 0 0 = (0, 0, 0)" by (simp add: demo_original_def)
  from blend_linear_per_pixel [OF pm c x1 y0]
  have "px demo_mask 1 0 = 255 \<longrightarrow>
      px out 1 0 = px (placed_patch demo_kernels demo_original demo_mapping demo_output) 1 0"
    by blast
  with m1 placed1 have b: "px out 1 0 = (255, 255, 255)" by simp
  from c w a b m0 m1 show ?thesis by blast
qed


end
